theory Spec2Isabelle
  imports Main "HOL-Library.Sublist"
begin

section \<open>Configuration model (scripts/lib/config.ts)\<close>

text \<open>
  The generators read table and enum descriptors that \<open>JSON.parse\<close> produced. Strings are
  lists of code units below 256. Numbers of a descriptor (lengths, precisions, bounds,
  numeric defaults) are modelled as integers. A template literal prints an integer of
  magnitude below \<open>10\<^sup>2\<^sup>1\<close> in plain decimal, which is what \<open>showNumber\<close> gives; a
  descriptor that holds a fraction (a default of \<open>9.99\<close>) or a larger number is outside
  the model.
  An optional member of an interface is an \<open>option\<close>; \<open>None\<close> is JavaScript's
  \<open>undefined\<close>. An object is the list of its entries in the order of
  \<open>Object.entries\<close>.
\<close>

datatype error = TypeError | InvalidTableConfiguration string

datatype jsvalue = JNumber int | JString string | JBoolean bool | JNull

record References =
  table :: string
  column :: string
  onDelete :: "string option"

record ColumnConstraints =
  ctype :: string
  clength :: "int option"
  precision :: "int option"
  scale :: "int option"
  nullable :: "bool option"
  cdefault :: "jsvalue option"
  primaryKey :: "bool option"
  unique :: "bool option"
  references :: "References option"

record ColumnValidation =
  required :: "bool option"
  vmin :: "int option"
  vmax :: "int option"
  pattern :: "string option"
  email :: "bool option"
  url :: "bool option"

record ColumnConfig =
  dbConstraints :: ColumnConstraints
  validation :: "ColumnValidation option"

record IndexConfig =
  indexColumns :: "string list"

record RelationshipConfig =
  rtype :: string
  rtable :: string

text \<open>
  \<open>columns\<close> is mandatory in the interface, but the descriptor is a cast of parsed JSON and
  \<open>validateTableConfig\<close> tests \<open>!table.columns\<close>: an absent column map is \<open>None\<close>.
\<close>

record TableConfig =
  tableName :: string
  displayName :: string
  columns :: "(string \<times> ColumnConfig) list option"
  indexes :: "(string \<times> IndexConfig) list option"
  relationships :: "(string \<times> RelationshipConfig) list option"

text \<open>An enum descriptor is used through \<open>Object.keys\<close> only: the model keeps its keys.\<close>

type_synonym EnumsConfig = "(string \<times> string list) list"

subsection \<open>Truthiness of optional members\<close>

definition truthyBool :: "bool option \<Rightarrow> bool" where
  "truthyBool b = (b = Some True)"

definition truthyNumber :: "int option \<Rightarrow> bool" where
  "truthyNumber n = (case n of None \<Rightarrow> False | Some v \<Rightarrow> v \<noteq> 0)"

definition truthyString :: "string option \<Rightarrow> bool" where
  "truthyString s = (case s of None \<Rightarrow> False | Some v \<Rightarrow> v \<noteq> [])"

section \<open>Validator (scripts/lib/template.ts, scripts/models/utils/schemaAnalysis.ts)\<close>

text \<open>
  Both files hold the same \<open>validateTableConfig\<close>. \<open>Object.values(table.columns)\<close> throws
  a TypeError when the column map is absent; the two checks before it have run by then, but
  their result is lost with the exception.
\<close>

definition isPrimaryKeyColumn :: "string \<times> ColumnConfig \<Rightarrow> bool" where
  "isPrimaryKeyColumn entry =
     (truthyBool (primaryKey (dbConstraints (snd entry)))
      \<or> ctype (dbConstraints (snd entry)) = ''serial'')"

definition validateTableConfig :: "TableConfig \<Rightarrow> error + string list" where
  "validateTableConfig t =
     (let errors0 = [];
          errors1 = (if tableName t = [] then errors0 @ [''Table must have a tableName'']
                     else errors0);
          errors2 = (if columns t = None \<or> columns t = Some []
                     then errors1 @ [''Table must have at least one column'']
                     else errors1)
      in case columns t of
           None \<Rightarrow> Inl TypeError
         | Some cs \<Rightarrow>
             (let hasPrimaryKey = list_ex isPrimaryKeyColumn cs
              in Inr (if \<not> hasPrimaryKey
                      then errors2 @ [''Table must have a primary key'']
                      else errors2)))"

section \<open>String transformations (scripts/lib/stringTransforms.ts)\<close>

definition lowerLetters :: string where
  "lowerLetters = ''abcdefghijklmnopqrstuvwxyz''"

definition upperLetters :: string where
  "upperLetters = ''ABCDEFGHIJKLMNOPQRSTUVWXYZ''"

definition isLowerLetter :: "char \<Rightarrow> bool" where
  "isLowerLetter c = (c \<in> set lowerLetters)"

definition isDigit :: "char \<Rightarrow> bool" where
  "isDigit c = (c \<in> set ''0123456789'')"

definition toUpperChar :: "char \<Rightarrow> char" where
  "toUpperChar c = (case map_of (zip lowerLetters upperLetters) c of Some u \<Rightarrow> u | None \<Rightarrow> c)"

definition toLowerChar :: "char \<Rightarrow> char" where
  "toLowerChar c = (case map_of (zip upperLetters lowerLetters) c of Some l \<Rightarrow> l | None \<Rightarrow> c)"

text \<open>
  \<open>toLowerCase\<close> is used for one lookup among ASCII keys; only the letters A to Z can turn
  into ASCII letters, so the other code units are left as they are.
\<close>

definition toLowerCase :: "string \<Rightarrow> string" where
  "toLowerCase str = map toLowerChar str"

text \<open>\<open>str.replace(/_([a-z0-9])/g, (_, letter) => letter.toUpperCase())\<close>\<close>

fun toCamelCase :: "string \<Rightarrow> string" where
  "toCamelCase [] = []"
| "toCamelCase [c] = [c]"
| "toCamelCase (c # d # rest) =
     (if c = CHR ''_'' \<and> (isLowerLetter d \<or> isDigit d)
      then toUpperChar d # toCamelCase rest
      else c # toCamelCase (d # rest))"

text \<open>
  \<open>str.replace(/(^|_)([a-z])/g, (_, __, letter) => letter.toUpperCase())\<close>: a lower-case
  letter at the start, and every underscore followed by a lower-case letter.
\<close>

fun pascalRest :: "string \<Rightarrow> string" where
  "pascalRest [] = []"
| "pascalRest [c] = [c]"
| "pascalRest (c # d # rest) =
     (if c = CHR ''_'' \<and> isLowerLetter d
      then toUpperChar d # pascalRest rest
      else c # pascalRest (d # rest))"

definition toPascalCase :: "string \<Rightarrow> string" where
  "toPascalCase str =
     (case str of
        [] \<Rightarrow> []
      | c # rest \<Rightarrow> if isLowerLetter c then toUpperChar c # pascalRest rest else pascalRest str)"

definition endsWith :: "string \<Rightarrow> string \<Rightarrow> bool" where
  "endsWith str s = suffix s str"

text \<open>\<open>str.slice(0, -n)\<close>\<close>

definition sliceEnd :: "string \<Rightarrow> nat \<Rightarrow> string" where
  "sliceEnd str n = take (length str - n) str"

definition irregulars :: "(string \<times> string) list" where
  "irregulars =
     [(''people'', ''person''), (''children'', ''child''), (''feet'', ''foot''),
      (''teeth'', ''tooth''), (''geese'', ''goose''), (''mice'', ''mouse''),
      (''men'', ''man''), (''women'', ''woman'')]"

text \<open>
  \<open>irregulars[lower]\<close> reads an object literal, so the lookup also finds the members
  inherited from \<open>Object.prototype\<close>. The only ones with a lower-case name are
  \<open>constructor\<close> and \<open>__proto__\<close>; both are truthy and \<open>toSingular\<close> returns them, a
  function and an object. \<open>None\<close> stands for such a result, on which the callers'
  \<open>str.replace\<close> throws a TypeError.
\<close>

definition toSingular :: "string \<Rightarrow> string option" where
  "toSingular str =
     (let lower = toLowerCase str
      in case map_of irregulars lower of
           Some s \<Rightarrow> Some s
         | None \<Rightarrow>
             if lower = ''constructor'' \<or> lower = ''__proto__'' then None
             else if endsWith str ''ies'' then Some (sliceEnd str 3 @ ''y'')
             else if endsWith str ''ves'' then Some (sliceEnd str 3 @ ''f'')
             else if endsWith str ''es''
                     \<and> (endsWith str ''ches'' \<or> endsWith str ''shes''
                          \<or> endsWith str ''xes'' \<or> endsWith str ''zes'')
                  then Some (sliceEnd str 2)
             else if endsWith str ''s'' \<and> \<not> endsWith str ''ss'' then Some (sliceEnd str 1)
             else Some str)"

definition toSingularPascalCase :: "string \<Rightarrow> error + string" where
  "toSingularPascalCase name =
     (case toSingular name of None \<Rightarrow> Inl TypeError | Some s \<Rightarrow> Inr (toPascalCase s))"

definition toSingularCamelCase :: "string \<Rightarrow> error + string" where
  "toSingularCamelCase name =
     (case toSingular name of None \<Rightarrow> Inl TypeError | Some s \<Rightarrow> Inr (toCamelCase s))"

subsection \<open>Numbers and values in template literals\<close>

text \<open>
  \<open>showNumber\<close> is the decimal notation of an integer, the text of \<open>${n}\<close> for an integer
  \<open>n\<close> of magnitude below \<open>10\<^sup>2\<^sup>1\<close>. Beyond that bound JavaScript prints an exponent, and
  a fraction prints with a decimal point; neither is represented.
\<close>

definition digitChar :: "nat \<Rightarrow> char" where
  "digitChar d = ''0123456789'' ! d"

fun digits :: "nat \<Rightarrow> string" where
  "digits n = (if n < 10 then [digitChar n] else digits (n div 10) @ [digitChar (n mod 10)])"

declare digits.simps [simp del]

definition showNumber :: "int \<Rightarrow> string" where
  "showNumber i = (if i < 0 then ''-'' @ digits (nat (- i)) else digits (nat i))"

definition showValue :: "jsvalue \<Rightarrow> string" where
  "showValue v =
     (case v of
        JNumber n \<Rightarrow> showNumber n
      | JString s \<Rightarrow> s
      | JBoolean b \<Rightarrow> (if b then ''true'' else ''false'')
      | JNull \<Rightarrow> ''null'')"

abbreviation apos :: string where
  "apos \<equiv> [CHR 0x27]"

abbreviation dquote :: string where
  "dquote \<equiv> [CHR 0x22]"

abbreviation backslash :: string where
  "backslash \<equiv> [CHR 0x5C]"

abbreviation newline :: string where
  "newline \<equiv> [CHR 0x0A]"

section \<open>Storage types (scripts/models/generators/schemas.ts)\<close>

text \<open>
  \<open>Object.keys(enums).find((key) => key === type || key === `${type}_enum`)\<close>; the result
  is tested for truthiness, which the empty key fails.
\<close>

definition findEnumKey :: "EnumsConfig \<Rightarrow> string \<Rightarrow> string option" where
  "findEnumKey enums ty = find (\<lambda>key. key = ty \<or> key = ty @ ''_enum'') (map fst enums)"

definition isNumericType :: "string \<Rightarrow> bool" where
  "isNumericType ty = (ty = ''numeric'' \<or> ty = ''decimal'' \<or> ty = ''money'')"

text \<open>The \<open>switch\<close> of \<open>mapColumnToDrizzle\<close>: the column type and the modifiers it pushes.\<close>

definition drizzleSwitch ::
  "string \<Rightarrow> ColumnConstraints \<Rightarrow> EnumsConfig \<Rightarrow> string \<times> string list" where
  "drizzleSwitch columnName d enums =
     (let ty = ctype d; quoted = apos @ columnName @ apos
      in if ty = ''varchar'' then
           (case clength d of
              Some n \<Rightarrow>
                if n \<noteq> 0
                then (''varchar('' @ quoted @ '', { length: '' @ showNumber n @ '' })'', [])
                else (''varchar('' @ quoted @ '')'', [])
            | None \<Rightarrow> (''varchar('' @ quoted @ '')'', []))
         else if ty = ''text'' then (''text('' @ quoted @ '')'', [])
         else if ty = ''integer'' then (''integer('' @ quoted @ '')'', [])
         else if ty = ''serial'' then
           (''integer('' @ quoted @ '')'', [''.primaryKey()'', ''.generatedAlwaysAsIdentity()''])
         else if ty = ''numeric'' \<or> ty = ''decimal'' then
           (if truthyNumber (precision d) \<and> truthyNumber (scale d)
            then (''numeric('' @ quoted @ '', { precision: '' @ showNumber (the (precision d))
                  @ '', scale: '' @ showNumber (the (scale d)) @ '' })'', [])
            else (''numeric('' @ quoted @ '')'', []))
         else if ty = ''money'' then
           (''numeric('' @ quoted @ '', { precision: 10, scale: 2 })'', [])
         else if ty = ''timestamp'' then
           (''timestamp('' @ quoted @ '', { mode: '' @ apos @ ''date'' @ apos @ '' })'', [])
         else if ty = ''date'' then
           (''date('' @ quoted @ '', { mode: '' @ apos @ ''date'' @ apos @ '' })'', [])
         else if ty = ''boolean'' then (''boolean('' @ quoted @ '')'', [])
         else if ty = ''geography'' then (''text('' @ quoted @ '')'', [])
         else
           (case findEnumKey enums ty of
              Some enumKey \<Rightarrow>
                if enumKey \<noteq> [] then (toCamelCase enumKey @ ''('' @ quoted @ '')'', [])
                else (''text('' @ quoted @ '')'', [])
            | None \<Rightarrow> (''text('' @ quoted @ '')'', [])))"

definition drizzleDefault :: "string \<Rightarrow> jsvalue \<Rightarrow> string" where
  "drizzleDefault ty dv =
     (if dv = JString ''now()'' then ''.defaultNow()''
      else case dv of
             JString s \<Rightarrow> ''.default('' @ apos @ s @ apos @ '')''
           | JBoolean b \<Rightarrow> ''.default('' @ showValue dv @ '')''
           | _ \<Rightarrow>
               if isNumericType ty then ''.default('' @ apos @ showValue dv @ apos @ '')''
               else ''.default('' @ showValue dv @ '')'')"

definition drizzleReferences :: "References \<Rightarrow> string" where
  "drizzleReferences r =
     ''.references(() => '' @ toCamelCase (table r) @ ''.'' @ column r
     @ (if truthyString (onDelete r)
        then '', { onDelete: '' @ apos @ the (onDelete r) @ apos @ '' }''
        else [])
     @ '')''"

text \<open>
  The modifiers of one column, in the order in which \<open>mapColumnToDrizzle\<close> pushes them
  onto \<open>constraints\<close>.
\<close>

definition columnConstraints ::
  "string \<Rightarrow> ColumnConfig \<Rightarrow> EnumsConfig \<Rightarrow> bool \<Rightarrow> string list" where
  "columnConstraints columnName columnConfig enums hasCompositePrimaryKey =
     (let d = dbConstraints columnConfig;
          ty = ctype d;
          constraints0 = snd (drizzleSwitch columnName d enums);
          constraints1 =
            (case cdefault d of
               Some dv \<Rightarrow>
                 if ty \<noteq> ''serial'' then constraints0 @ [drizzleDefault ty dv]
                 else constraints0
             | None \<Rightarrow> constraints0);
          constraints2 =
            (if \<not> truthyBool (nullable d) \<and> ty \<noteq> ''serial''
             then constraints1 @ [''.notNull()''] else constraints1);
          constraints3 =
            (if truthyBool (unique d) \<and> ty \<noteq> ''serial'' \<and> \<not> truthyBool (primaryKey d)
             then constraints2 @ [''.unique()''] else constraints2);
          constraints4 =
            (if truthyBool (primaryKey d) \<and> ty \<noteq> ''serial'' \<and> \<not> hasCompositePrimaryKey
             then constraints3 @ [''.primaryKey()''] else constraints3)
      in case references d of
           Some r \<Rightarrow> constraints4 @ [drizzleReferences r]
         | None \<Rightarrow> constraints4)"

definition mapColumnToDrizzle ::
  "string \<Rightarrow> ColumnConfig \<Rightarrow> EnumsConfig \<Rightarrow> bool \<Rightarrow> string" where
  "mapColumnToDrizzle columnName columnConfig enums hasCompositePrimaryKey =
     ''  '' @ toCamelCase columnName @ '': ''
     @ fst (drizzleSwitch columnName (dbConstraints columnConfig) enums)
     @ concat (columnConstraints columnName columnConfig enums hasCompositePrimaryKey)"

section \<open>Storage types, utility version (scripts/models/utils/typeMapping.ts)\<close>





subsection \<open>Reading the modifier calls back from an expression\<close>

text \<open>
  The texts that follow the dots of an expression, and the method name each of them starts
  with: the characters up to the opening parenthesis.
\<close>

fun afterDots :: "string \<Rightarrow> string list" where
  "afterDots [] = []"
| "afterDots (c # t) = (if c = CHR ''.'' then t # afterDots t else afterDots t)"









text \<open>Every dot of the text is followed, within the text, by an opening parenthesis.\<close>

definition closedText :: "string \<Rightarrow> bool" where
  "closedText t = list_all (\<lambda>s. CHR ''('' \<in> set s) (afterDots t)"


section \<open>Validation schemas (scripts/models/generators/validation.ts)\<close>

definition emptyValidation :: ColumnValidation where
  "emptyValidation =
     \<lparr>required = None, vmin = None, vmax = None, pattern = None, email = None, url = None\<rparr>"

text \<open>\<open>columnConfig.validation || {}\<close>\<close>

definition validationOf :: "ColumnConfig \<Rightarrow> ColumnValidation" where
  "validationOf columnConfig =
     (case validation columnConfig of None \<Rightarrow> emptyValidation | Some v \<Rightarrow> v)"

text \<open>\<open>a || b\<close> on two optional numbers\<close>

definition orNumber :: "int option \<Rightarrow> int option \<Rightarrow> int option" where
  "orNumber a b = (if truthyNumber a then a else b)"

text \<open>\<open>xs.join(sep)\<close>\<close>

fun joinStrings :: "string \<Rightarrow> string list \<Rightarrow> string" where
  "joinStrings sep [] = []"
| "joinStrings sep [x] = x"
| "joinStrings sep (x # y # rest) = x @ sep @ joinStrings sep (y # rest)"

definition zodMin :: "ColumnValidation \<Rightarrow> string" where
  "zodMin v = (if truthyNumber (vmin v) then ''.min('' @ showNumber (the (vmin v)) @ '')'' else [])"

definition zodMax :: "ColumnValidation \<Rightarrow> string" where
  "zodMax v = (if truthyNumber (vmax v) then ''.max('' @ showNumber (the (vmax v)) @ '')'' else [])"

definition zodMaxOrLength :: "ColumnValidation \<Rightarrow> ColumnConstraints \<Rightarrow> string" where
  "zodMaxOrLength v d =
     (if truthyNumber (vmax v) \<or> truthyNumber (clength d)
      then ''.max('' @ showNumber (the (orNumber (vmax v) (clength d))) @ '')''
      else [])"

definition zodPattern :: "ColumnValidation \<Rightarrow> string" where
  "zodPattern v =
     (if truthyString (pattern v) then ''.regex(/'' @ the (pattern v) @ ''/)'' else [])"

definition zodDateMin :: "ColumnValidation \<Rightarrow> string" where
  "zodDateMin v =
     (if truthyNumber (vmin v)
      then ''.min(new Date('' @ apos @ showNumber (the (vmin v)) @ apos @ ''))''
      else [])"

definition zodDateMax :: "ColumnValidation \<Rightarrow> string" where
  "zodDateMax v =
     (if truthyNumber (vmax v)
      then ''.max(new Date('' @ apos @ showNumber (the (vmax v)) @ apos @ ''))''
      else [])"

text \<open>The string literal of the numeric case: a string check against a price pattern.\<close>

definition priceFormatType :: string where
  "priceFormatType =
     ''z.string().regex(/^'' @ backslash @ ''d+'' @ backslash @ ''.'' @ backslash
     @ ''d{2}$/, '' @ apos @ ''Invalid price format'' @ apos @ '')''"

definition generateBaseZodType :: "ColumnConfig \<Rightarrow> EnumsConfig \<Rightarrow> string" where
  "generateBaseZodType columnConfig enums =
     (let d = dbConstraints columnConfig; ty = ctype d; v = validationOf columnConfig
      in if ty = ''varchar'' \<or> ty = ''text'' then
           (if truthyBool (email v) then ''z.email()'' @ zodMaxOrLength v d @ zodMin v
            else if truthyBool (url v) then ''z.url()'' @ zodMaxOrLength v d @ zodMin v
            else ''z.string()'' @ zodMin v @ zodMaxOrLength v d @ zodPattern v)
         else if ty = ''integer'' \<or> ty = ''serial'' then
           ''z.number().int()'' @ zodMin v @ zodMax v
         else if ty = ''numeric'' \<or> ty = ''decimal'' \<or> ty = ''money'' then
           priceFormatType
         else if ty = ''timestamp'' \<or> ty = ''date'' then
           ''z.date()'' @ zodDateMin v @ zodDateMax v
         else if ty = ''boolean'' then ''z.boolean()''
         else if ty = ''geography'' then ''z.string()'' @ zodPattern v
         else
           (case findEnumKey enums ty of
              Some enumKey \<Rightarrow>
                if enumKey \<noteq> [] then toCamelCase enumKey @ ''Schema''
                else ''z.string()'' @ zodPattern v
            | None \<Rightarrow> ''z.string()'' @ zodPattern v))"

definition addDefaultValue :: "string \<Rightarrow> ColumnConfig \<Rightarrow> string" where
  "addDefaultValue zodType columnConfig =
     (let d = dbConstraints columnConfig; ty = ctype d
      in case cdefault d of
           None \<Rightarrow> zodType
         | Some dv \<Rightarrow>
             if ty \<noteq> ''serial'' \<and> dv \<noteq> JString ''now()'' then
               (case dv of
                  JString s \<Rightarrow> zodType @ ''.default('' @ dquote @ s @ dquote @ '')''
                | JBoolean b \<Rightarrow> zodType @ ''.default('' @ showValue dv @ '')''
                | _ \<Rightarrow>
                    if isNumericType ty
                    then zodType @ ''.default('' @ dquote @ showValue dv @ ''.00'' @ dquote @ '')''
                    else zodType @ ''.default('' @ showValue dv @ '')'')
             else zodType)"

definition generateBaseSchemaField :: "string \<Rightarrow> ColumnConfig \<Rightarrow> EnumsConfig \<Rightarrow> string" where
  "generateBaseSchemaField columnName columnConfig enums =
     (let d = dbConstraints columnConfig;
          v = validationOf columnConfig;
          fieldKey = toCamelCase columnName;
          zodType0 = generateBaseZodType columnConfig enums;
          zodType1 = addDefaultValue zodType0 columnConfig;
          zodType2 = (if truthyBool (nullable d) then zodType1 @ ''.nullable()'' else zodType1);
          zodType3 =
            (if required v = Some False \<and> \<not> truthyBool (nullable d)
                \<and> \<not> truthyBool (primaryKey d)
             then zodType2 @ ''.optional()'' else zodType2)
      in ''  '' @ fieldKey @ '': '' @ zodType3)"

text \<open>The base schema of a table; \<open>generateTableSchema\<close> in validation.ts.\<close>

definition generateTableSchema_zod :: "TableConfig \<Rightarrow> EnumsConfig \<Rightarrow> error + string" where
  "generateTableSchema_zod t enums =
     (case toSingularPascalCase (tableName t) of
        Inl e \<Rightarrow> Inl e
      | Inr baseName \<Rightarrow>
          (case columns t of
             None \<Rightarrow> Inl TypeError
           | Some cs \<Rightarrow>
               Inr (''export const '' @ baseName @ ''Schema = z.object({'' @ newline
                    @ joinStrings ('','' @ newline)
                        (map (\<lambda>(columnName, columnConfig).
                                generateBaseSchemaField columnName columnConfig enums) cs)
                    @ newline @ ''});'')))"


text \<open>
  The loop of \<open>generateInsertFieldModifications\<close>: an auto-generated column returns early,
  another one is pushed when it is nullable, has a default or is marked not required.
\<close>

fun insertModifications :: "(string \<times> ColumnConfig) list \<Rightarrow> EnumsConfig \<Rightarrow> string list" where
  "insertModifications [] enums = []"
| "insertModifications ((columnName, columnConfig) # rest) enums =
     (let d = dbConstraints columnConfig;
          v = validationOf columnConfig;
          fieldKey = toCamelCase columnName
      in if ctype d = ''serial'' \<or> cdefault d = Some (JString ''now()'')
         then insertModifications rest enums
         else
           (let hasDefault = (cdefault d \<noteq> None)
            in if truthyBool (nullable d) \<or> hasDefault \<or> required v = Some False
               then (''    '' @ fieldKey @ '': ''
                     @ addDefaultValue (generateBaseZodType columnConfig enums) columnConfig
                     @ ''.optional()'')
                    # insertModifications rest enums
               else insertModifications rest enums))"

definition generateInsertFieldModifications :: "TableConfig \<Rightarrow> EnumsConfig \<Rightarrow> error + string" where
  "generateInsertFieldModifications t enums =
     (case columns t of
        None \<Rightarrow> Inl TypeError
      | Some cs \<Rightarrow>
          (let modifications = insertModifications cs enums
           in Inr (if length modifications > 0
                   then joinStrings ('','' @ newline) modifications else [])))"

fun autoGeneratedFields :: "(string \<times> ColumnConfig) list \<Rightarrow> string list" where
  "autoGeneratedFields [] = []"
| "autoGeneratedFields ((columnName, columnConfig) # rest) =
     (if ctype (dbConstraints columnConfig) = ''serial''
         \<or> cdefault (dbConstraints columnConfig) = Some (JString ''now()'')
      then toCamelCase columnName # autoGeneratedFields rest
      else autoGeneratedFields rest)"

definition generateInsertSchema :: "TableConfig \<Rightarrow> EnumsConfig \<Rightarrow> error + string" where
  "generateInsertSchema t enums =
     (case toSingularPascalCase (tableName t) of
        Inl e \<Rightarrow> Inl e
      | Inr baseName \<Rightarrow>
          (case columns t of
             None \<Rightarrow> Inl TypeError
           | Some cs \<Rightarrow>
               (case generateInsertFieldModifications t enums of
                  Inl e \<Rightarrow> Inl e
                | Inr modifications \<Rightarrow>
                    (let baseSchemaName = baseName @ ''Schema'';
                         schemaName = baseName @ ''InsertSchema'';
                         fields = autoGeneratedFields cs
                     in if length fields = 0 \<and> modifications = []
                        then Inr (''export const '' @ schemaName @ '' = '' @ baseSchemaName @ '';'')
                        else
                          (let schemaDefinition0 = baseSchemaName;
                               schemaDefinition1 =
                                 (if length fields > 0
                                  then schemaDefinition0 @ ''.omit({ ''
                                       @ joinStrings '', '' (map (\<lambda>field. field @ '': true'') fields)
                                       @ '' })''
                                  else schemaDefinition0);
                               schemaDefinition2 =
                                 (if modifications \<noteq> []
                                  then schemaDefinition1 @ ''.extend({'' @ newline @ modifications
                                       @ newline @ ''  })''
                                  else schemaDefinition1)
                           in Inr (''export const '' @ schemaName @ '' = '' @ schemaDefinition2
                                   @ '';''))))))"

definition generateUpdateSchema :: "TableConfig \<Rightarrow> EnumsConfig \<Rightarrow> error + string" where
  "generateUpdateSchema t enums =
     (case toSingularPascalCase (tableName t) of
        Inl e \<Rightarrow> Inl e
      | Inr baseName \<Rightarrow>
          (case columns t of
             None \<Rightarrow> Inl TypeError
           | Some cs \<Rightarrow>
               (let insertSchemaName = baseName @ ''InsertSchema'';
                    schemaName = baseName @ ''UpdateSchema''
                in case find isPrimaryKeyColumn cs of
                     None \<Rightarrow>
                       Inr (''export const '' @ schemaName @ '' = '' @ insertSchemaName
                            @ ''.partial();'')
                   | Some (primaryKeyColumnName, primaryKeyConfig) \<Rightarrow>
                       Inr (''export const '' @ schemaName @ '' = '' @ insertSchemaName
                            @ ''.partial().extend({'' @ newline @ ''  ''
                            @ toCamelCase primaryKeyColumnName @ '': ''
                            @ generateBaseZodType primaryKeyConfig enums @ newline @ ''});''))))"

subsection \<open>The insert schema in the words of the specification\<close>





subsection \<open>Auxiliary notion: a text that cannot close an optional modifier\<close>

definition tailOK :: "string \<Rightarrow> bool" where
  "tailOK t = (t = [] \<or> (\<forall>z. \<not> suffix ''al()'' (z @ t)))"

text \<open>No dot of the text is followed by the letter o, and the text does not end in a dot.\<close>

definition optionalFree :: "string \<Rightarrow> bool" where
  "optionalFree t = list_all (\<lambda>s. s \<noteq> [] \<and> hd s \<noteq> CHR ''o'') (afterDots t)"


section \<open>Relations between tables (scripts/models/generators/types.ts)\<close>

definition importLine :: "string \<Rightarrow> string \<Rightarrow> string" where
  "importLine relatedType fileName =
     ''import type { '' @ relatedType @ '' } from '' @ apos @ ''../'' @ fileName @ apos @ '';''"

text \<open>
  \<open>if (!imports.includes(relatedType)) imports.push(...)\<close>: the test looks for the type
  name among the import lines.
\<close>

definition pushImport :: "string list \<Rightarrow> string \<Rightarrow> string \<Rightarrow> string list" where
  "pushImport imports relatedType fileName =
     (if relatedType \<in> set imports then imports
      else imports @ [importLine relatedType fileName])"

definition outgoingRelation :: "string \<Rightarrow> string \<Rightarrow> string" where
  "outgoingRelation relationName relatedType = ''  '' @ relationName @ ''?: '' @ relatedType @ '';''"

text \<open>
  The loop of \<open>generateForeignKeyRelations\<close> over \<open>Object.entries(table.columns)\<close>, with the
  two arrays it pushes onto.
\<close>

fun foreignKeyLoop ::
  "(string \<times> ColumnConfig) list \<Rightarrow> string list \<times> string list
   \<Rightarrow> error + (string list \<times> string list)" where
  "foreignKeyLoop [] acc = Inr acc"
| "foreignKeyLoop ((columnName, columnConfig) # rest) (relations, imports) =
     (case references (dbConstraints columnConfig) of
        None \<Rightarrow> foreignKeyLoop rest (relations, imports)
      | Some r \<Rightarrow>
          (case toSingularCamelCase (table r) of
             Inl e \<Rightarrow> Inl e
           | Inr relationName \<Rightarrow>
               (case toSingularPascalCase (table r) of
                  Inl e \<Rightarrow> Inl e
                | Inr relatedType \<Rightarrow>
                    (case toSingularCamelCase (table r) of
                       Inl e \<Rightarrow> Inl e
                     | Inr fileName \<Rightarrow>
                         foreignKeyLoop rest
                           (relations @ [outgoingRelation relationName relatedType],
                            pushImport imports relatedType fileName)))))"

definition generateForeignKeyRelations ::
  "TableConfig \<Rightarrow> error + (string list \<times> string list)" where
  "generateForeignKeyRelations t =
     (case columns t of
        None \<Rightarrow> Inl TypeError
      | Some cs \<Rightarrow> foreignKeyLoop cs ([], []))"

text \<open>\<open>tableName.endsWith("s") ? tableName : `${tableName}s`\<close>\<close>

definition pluralName :: "string \<Rightarrow> string" where
  "pluralName name = (if endsWith name ''s'' then name else name @ ''s'')"

definition incomingRelation :: "string \<Rightarrow> string \<Rightarrow> string" where
  "incomingRelation relationName relatedType =
     ''  '' @ relationName @ ''?: '' @ relatedType @ ''[];''"

text \<open>The inner loop of \<open>generateReverseRelations\<close>, over the columns of one other table.\<close>

fun reverseColumnLoop ::
  "string \<Rightarrow> string \<Rightarrow> (string \<times> ColumnConfig) list \<Rightarrow> string list \<times> string list
   \<Rightarrow> error + (string list \<times> string list)" where
  "reverseColumnLoop currentTableName otherName [] acc = Inr acc"
| "reverseColumnLoop currentTableName otherName ((columnName, columnConfig) # rest)
     (relations, imports) =
     (case references (dbConstraints columnConfig) of
        None \<Rightarrow> reverseColumnLoop currentTableName otherName rest (relations, imports)
      | Some r \<Rightarrow>
          if table r = currentTableName then
            (let relationName = pluralName (toCamelCase otherName)
             in case toSingularPascalCase otherName of
                  Inl e \<Rightarrow> Inl e
                | Inr relatedType \<Rightarrow>
                    (case toSingularCamelCase otherName of
                       Inl e \<Rightarrow> Inl e
                     | Inr fileName \<Rightarrow>
                         reverseColumnLoop currentTableName otherName rest
                           (relations @ [incomingRelation relationName relatedType],
                            pushImport imports relatedType fileName)))
          else reverseColumnLoop currentTableName otherName rest (relations, imports))"

text \<open>
  The outer loop over \<open>allTables\<close>. A table is skipped when
  \<open>otherTable.tableName === currentTableName\<close>.
\<close>

fun reverseTableLoop ::
  "string \<Rightarrow> TableConfig list \<Rightarrow> string list \<times> string list
   \<Rightarrow> error + (string list \<times> string list)" where
  "reverseTableLoop currentTableName [] acc = Inr acc"
| "reverseTableLoop currentTableName (otherTable # rest) acc =
     (if tableName otherTable = currentTableName
      then reverseTableLoop currentTableName rest acc
      else case columns otherTable of
             None \<Rightarrow> Inl TypeError
           | Some cs \<Rightarrow>
               (case reverseColumnLoop currentTableName (tableName otherTable) cs acc of
                  Inl e \<Rightarrow> Inl e
                | Inr acc' \<Rightarrow> reverseTableLoop currentTableName rest acc'))"

definition generateReverseRelations ::
  "TableConfig \<Rightarrow> TableConfig list \<Rightarrow> error + (string list \<times> string list)" where
  "generateReverseRelations t allTables = reverseTableLoop (tableName t) allTables ([], [])"

subsection \<open>The relations in the words of the specification\<close>

text \<open>The columns that carry a foreign key to the table of the given name.\<close>

definition referencingColumns ::
  "string \<Rightarrow> (string \<times> ColumnConfig) list \<Rightarrow> (string \<times> ColumnConfig) list" where
  "referencingColumns name cs =
     filter (\<lambda>entry. case references (dbConstraints (snd entry)) of
                        None \<Rightarrow> False | Some r \<Rightarrow> table r = name) cs"

text \<open>The names of the tables that the columns refer to, one per foreign key.\<close>

definition foreignKeyTargets :: "(string \<times> ColumnConfig) list \<Rightarrow> string list" where
  "foreignKeyTargets cs =
     concat (map (\<lambda>entry. case references (dbConstraints (snd entry)) of
                             None \<Rightarrow> [] | Some r \<Rightarrow> [table r]) cs)"

definition referencesTable :: "string \<Rightarrow> TableConfig \<Rightarrow> bool" where
  "referencesTable name t =
     (case columns t of None \<Rightarrow> False | Some cs \<Rightarrow> referencingColumns name cs \<noteq> [])"

text \<open>The entry that names a source table in the incoming relations of its target.\<close>

definition incomingEntry :: "string \<Rightarrow> string option" where
  "incomingEntry sourceName =
     (case toSingular sourceName of
        None \<Rightarrow> None
      | Some s \<Rightarrow> Some (incomingRelation (pluralName (toCamelCase sourceName)) (toPascalCase s)))"

text \<open>The entry that names a target table in the outgoing relations of its source.\<close>

definition outgoingEntry :: "string \<Rightarrow> string option" where
  "outgoingEntry targetName =
     (case toSingular targetName of
        None \<Rightarrow> None
      | Some s \<Rightarrow> Some (outgoingRelation (toCamelCase s) (toPascalCase s)))"

text \<open>
  What one table of the loaded list contributes to the incoming relations of the table
  named \<open>name\<close>: nothing when it has that name itself, and otherwise its entry once per
  column that refers to \<open>name\<close>.
\<close>

definition incomingContribution :: "string \<Rightarrow> TableConfig \<Rightarrow> string list" where
  "incomingContribution name other =
     (if tableName other = name then []
      else case columns other of
             None \<Rightarrow> []
           | Some cs \<Rightarrow>
               replicate (length (referencingColumns name cs))
                 (case incomingEntry (tableName other) of None \<Rightarrow> [] | Some entry \<Rightarrow> entry))"

text \<open>
  The tables of the list that the scan for \<open>name\<close> reads can be read: each has a column
  map, and each that refers to \<open>name\<close> has a name that \<open>toSingular\<close> maps to a string.
\<close>

definition scannable :: "string \<Rightarrow> TableConfig list \<Rightarrow> bool" where
  "scannable name allTables =
     list_all (\<lambda>other. tableName other = name
                 \<or> (columns other \<noteq> None
                     \<and> (referencesTable name other \<longrightarrow> toSingular (tableName other) \<noteq> None)))
       allTables"

section \<open>File header and imports (scripts/lib/template.ts)\<close>

text \<open>
  \<open>generateFileHeader\<close> reads the clock: \<open>new Date().toISOString()\<close>. The reading is the
  parameter \<open>now\<close> of the header and of every function that writes one.
\<close>

definition generateFileHeader :: "string \<Rightarrow> string \<Rightarrow> string" where
  "generateFileHeader description now =
     ''// '' @ description @ newline
     @ ''// This file is auto-generated. Do not edit manually.'' @ newline
     @ ''// Generated at: '' @ now @ newline @ newline"

definition generateImports :: "(string \<times> string list) list \<Rightarrow> string" where
  "generateImports imports =
     joinStrings newline
       (map (\<lambda>(source, items).
               ''import { '' @ joinStrings '', '' items @ '' } from '' @ apos @ source @ apos @ '';'')
          imports)
     @ newline @ newline"

subsection \<open>Exceptions and loops that may throw\<close>

definition bindE :: "error + 'a \<Rightarrow> ('a \<Rightarrow> error + 'b) \<Rightarrow> error + 'b" where
  "bindE r f = (case r of Inl e \<Rightarrow> Inl e | Inr v \<Rightarrow> f v)"

fun mapE :: "('a \<Rightarrow> error + 'b) \<Rightarrow> 'a list \<Rightarrow> error + 'b list" where
  "mapE f [] = Inr []"
| "mapE f (x # xs) = bindE (f x) (\<lambda>y. bindE (mapE f xs) (\<lambda>ys. Inr (y # ys)))"

text \<open>\<open>arr.filter((x, index, arr) => arr.indexOf(x) === index)\<close>: first occurrences.\<close>

fun uniqueFrom :: "'a list \<Rightarrow> 'a list \<Rightarrow> 'a list" where
  "uniqueFrom seen [] = []"
| "uniqueFrom seen (x # xs) =
     (if x \<in> set seen then uniqueFrom seen xs else x # uniqueFrom (seen @ [x]) xs)"

definition unique_first :: "'a list \<Rightarrow> 'a list" where
  "unique_first xs = uniqueFrom [] xs"

text \<open>
  The check that opens every per-table generator: a non-empty list of issues is thrown as
  an \<open>Error\<close> with the table name and the issues.
\<close>

definition checkedTable :: "TableConfig \<Rightarrow> error + unit" where
  "checkedTable t =
     bindE (validateTableConfig t)
       (\<lambda>errors. if length errors > 0
                 then Inl (InvalidTableConfiguration
                             (''Invalid table configuration for '' @ tableName t @ '': ''
                              @ joinStrings '', '' errors))
                 else Inr ())"

text \<open>The column types of a table that name an enum, in column order.\<close>

definition enumTypesUsed :: "(string \<times> ColumnConfig) list \<Rightarrow> EnumsConfig \<Rightarrow> string list" where
  "enumTypesUsed cs enums =
     filter (\<lambda>ty. ty \<in> set (map fst enums) \<or> ty @ ''_enum'' \<in> set (map fst enums))
       (map (\<lambda>entry. ctype (dbConstraints (snd entry))) cs)"

text \<open>\<open>Object.keys(config).filter((key) => key !== "description").map((v) => `'${v}'`)\<close>\<close>

definition enumValues :: "string list \<Rightarrow> string" where
  "enumValues config =
     joinStrings '', '' (map (\<lambda>v. apos @ v @ apos) (filter (\<lambda>key. key \<noteq> ''description'') config))"

section \<open>Validation files (scripts/models/generators/validation.ts)\<close>

definition generateEnumSchemas :: "EnumsConfig \<Rightarrow> string" where
  "generateEnumSchemas enums =
     joinStrings newline
       (map (\<lambda>(enumName, config).
               ''export const '' @ toCamelCase enumName @ ''Schema = z.enum(['' @ enumValues config
               @ '']);'')
          enums)
     @ newline @ newline"

definition enumSchemaImport :: "EnumsConfig \<Rightarrow> string \<Rightarrow> string" where
  "enumSchemaImport enums enumType =
     (case findEnumKey enums enumType of
        None \<Rightarrow> []
      | Some enumKey \<Rightarrow>
          if enumKey \<noteq> []
          then ''import { '' @ toCamelCase enumKey @ ''Schema } from '' @ apos @ ''../enums'' @ apos
               @ '';'' @ newline
          else [])"

definition generateTableValidation :: "TableConfig \<Rightarrow> EnumsConfig \<Rightarrow> string \<Rightarrow> error + string" where
  "generateTableValidation t enums now =
     bindE (checkedTable t) (\<lambda>_.
       let content0 =
             generateFileHeader (''Zod validation schemas for '' @ tableName t @ '' table'') now
       in case columns t of
            None \<Rightarrow> Inl TypeError
          | Some cs \<Rightarrow>
              (let usedEnums = unique_first (enumTypesUsed cs enums);
                   content1 = content0 @ generateImports [(''zod'', [''z''])];
                   content2 =
                     (if length usedEnums > 0
                      then content1 @ ''// Enum schema imports'' @ newline
                           @ concat (map (enumSchemaImport enums) usedEnums) @ newline
                      else content1)
               in bindE (generateTableSchema_zod t enums) (\<lambda>baseSchema.
                  bindE (generateInsertSchema t enums) (\<lambda>insertSchema.
                  bindE (generateUpdateSchema t enums) (\<lambda>updateSchema.
                  bindE (toSingularPascalCase (tableName t)) (\<lambda>name.
                    Inr (content2
                         @ ''// Base table schema'' @ newline @ baseSchema @ newline @ newline
                         @ ''// Insert schema (for creating new records)'' @ newline
                         @ insertSchema @ newline @ newline
                         @ ''// Update schema (for updating existing records)'' @ newline
                         @ updateSchema @ newline @ newline
                         @ ''// TypeScript types (inferred from schemas above)'' @ newline
                         @ ''export type '' @ name @ '' = z.infer<typeof '' @ name @ ''Schema>;''
                         @ newline
                         @ ''export type '' @ name @ ''Insert = z.infer<typeof '' @ name
                         @ ''InsertSchema>;'' @ newline
                         @ ''export type '' @ name @ ''Update = z.infer<typeof '' @ name
                         @ ''UpdateSchema>;'' @ newline)))))))"

definition generateEnumsValidation :: "EnumsConfig \<Rightarrow> string \<Rightarrow> string" where
  "generateEnumsValidation enums now =
     generateFileHeader ''Zod enum validation schemas'' now
     @ generateImports [(''zod'', [''z''])]
     @ generateEnumSchemas enums
     @ ''// TypeScript types (inferred from schemas above)'' @ newline
     @ concat (map (\<lambda>(enumName, config).
                      ''export type '' @ toPascalCase enumName @ '' = z.infer<typeof ''
                      @ toCamelCase enumName @ ''Schema>;'' @ newline)
                 enums)"

section \<open>Storage files (scripts/models/generators/schemas.ts)\<close>

definition generateEnumDefinitions :: "EnumsConfig \<Rightarrow> string" where
  "generateEnumDefinitions enums =
     joinStrings newline
       (map (\<lambda>(enumName, config).
               ''export const '' @ toCamelCase enumName @ '' = pgEnum('' @ apos @ enumName @ apos
               @ '', ['' @ enumValues config @ '']);'')
          enums)
     @ newline @ newline"

text \<open>The columns that make a composite primary key: flagged primary and not serial.\<close>

definition primaryKeyColumns :: "(string \<times> ColumnConfig) list \<Rightarrow> string list" where
  "primaryKeyColumns cs =
     map fst (filter (\<lambda>entry. truthyBool (primaryKey (dbConstraints (snd entry)))
                              \<and> ctype (dbConstraints (snd entry)) \<noteq> ''serial'') cs)"

definition hasIndexes :: "TableConfig \<Rightarrow> bool" where
  "hasIndexes t = (case indexes t of None \<Rightarrow> False | Some ix \<Rightarrow> length ix > 0)"

definition generateTableDefinition :: "TableConfig \<Rightarrow> EnumsConfig \<Rightarrow> error + string" where
  "generateTableDefinition t enums =
     (case columns t of
        None \<Rightarrow> Inl TypeError
      | Some cs \<Rightarrow>
          (let name = toCamelCase (tableName t);
               hasCompositePrimaryKey = (length (primaryKeyColumns cs) > 1);
               columnLines =
                 joinStrings ('','' @ newline)
                   (map (\<lambda>(columnName, columnConfig).
                           mapColumnToDrizzle columnName columnConfig enums hasCompositePrimaryKey)
                      cs);
               constraints0 = [];
               constraints1 =
                 (if hasCompositePrimaryKey
                  then constraints0
                       @ [''  primaryKey({ columns: [''
                          @ joinStrings '', ''
                              (map (\<lambda>col. ''table.'' @ toCamelCase col) (primaryKeyColumns cs))
                          @ ''] })'']
                  else constraints0);
               constraints2 =
                 (if hasIndexes t
                  then constraints1
                       @ map (\<lambda>(indexName, indexConfig).
                                ''  index('' @ apos @ indexName @ apos @ '').on(''
                                @ joinStrings '', ''
                                    (map (\<lambda>col. ''table.'' @ toCamelCase col)
                                       (indexColumns indexConfig))
                                @ '')'')
                           (the (indexes t))
                  else constraints1);
               constraintsCallback =
                 (if length constraints2 > 0
                  then '', (table) => ['' @ newline @ joinStrings ('','' @ newline) constraints2
                       @ newline @ '']''
                  else [])
           in Inr (''export const '' @ name @ '' = pgTable('' @ apos @ tableName t @ apos @ '', {''
                   @ newline @ columnLines @ newline @ ''}'' @ constraintsCallback @ '');'')))"

definition hasRelationships :: "TableConfig \<Rightarrow> bool" where
  "hasRelationships t = (case relationships t of None \<Rightarrow> False | Some rs \<Rightarrow> length rs > 0)"

definition generateRelations :: "TableConfig \<Rightarrow> string" where
  "generateRelations t =
     (if \<not> hasRelationships t then []
      else
        (let name = toCamelCase (tableName t);
             relations =
               joinStrings newline
                 (map (\<lambda>(relationName, relationConfig).
                         let relatedTable = toCamelCase (rtable relationConfig)
                         in if rtype relationConfig = ''one-to-one''
                            then ''  '' @ relationName @ '': one('' @ relatedTable @ ''),''
                            else if rtype relationConfig = ''one-to-many''
                            then ''  '' @ relationName @ '': many('' @ relatedTable @ ''),''
                            else if rtype relationConfig = ''many-to-many''
                            then ''  // many-to-many relation: '' @ relationName
                            else ''  // unknown relation type: '' @ relationName)
                    (the (relationships t)))
         in newline @ newline @ ''export const '' @ name @ ''Relations = relations('' @ name
            @ '', ({ one, many }) => ({'' @ newline @ relations @ newline @ ''}));''))"

text \<open>\<open>Array.prototype.sort()\<close> without a comparator: by code units.\<close>

fun lessString :: "string \<Rightarrow> string \<Rightarrow> bool" where
  "lessString [] [] = False"
| "lessString [] (y # ys) = True"
| "lessString (x # xs) [] = False"
| "lessString (x # xs) (y # ys) =
     ((of_char x :: nat) < of_char y \<or> (x = y \<and> lessString xs ys))"

fun insertString :: "string \<Rightarrow> string list \<Rightarrow> string list" where
  "insertString x [] = [x]"
| "insertString x (y # ys) = (if lessString x y then x # y # ys else y # insertString x ys)"

definition sortStrings :: "string list \<Rightarrow> string list" where
  "sortStrings xs = foldr insertString xs []"

text \<open>\<open>set.add(x)\<close> on a \<open>Set\<close>, kept in insertion order.\<close>

definition setAdd :: "'a list \<Rightarrow> 'a \<Rightarrow> 'a list" where
  "setAdd xs x = (if x \<in> set xs then xs else xs @ [x])"

definition pgCoreImportOf :: "string \<Rightarrow> string option" where
  "pgCoreImportOf ty =
     (if ty = ''varchar'' then Some ''varchar''
      else if ty = ''text'' then Some ''text''
      else if ty = ''integer'' \<or> ty = ''serial'' then Some ''integer''
      else if ty = ''numeric'' \<or> ty = ''decimal'' \<or> ty = ''money'' then Some ''numeric''
      else if ty = ''timestamp'' then Some ''timestamp''
      else if ty = ''date'' then Some ''date''
      else if ty = ''boolean'' then Some ''boolean''
      else None)"

definition pgCoreImports :: "TableConfig \<Rightarrow> (string \<times> ColumnConfig) list \<Rightarrow> string list" where
  "pgCoreImports t cs =
     (let set0 = [''pgTable''];
          set1 =
            fold (\<lambda>entry acc.
                    case pgCoreImportOf (ctype (dbConstraints (snd entry))) of
                      None \<Rightarrow> acc | Some name \<Rightarrow> setAdd acc name)
              cs set0;
          set2 = (if hasIndexes t then setAdd set1 ''index'' else set1)
      in if length (primaryKeyColumns cs) > 1 then setAdd set2 ''primaryKey'' else set2)"

definition enumImport :: "EnumsConfig \<Rightarrow> string \<Rightarrow> string" where
  "enumImport enums enumType =
     (case findEnumKey enums enumType of
        None \<Rightarrow> []
      | Some enumKey \<Rightarrow>
          if enumKey \<noteq> []
          then ''import { '' @ toCamelCase enumKey @ '' } from '' @ apos @ ''../enums'' @ apos
               @ '';'' @ newline
          else [])"

definition tableImport :: "string \<Rightarrow> error + string" where
  "tableImport referencedTable =
     bindE (toSingularCamelCase referencedTable)
       (\<lambda>fileName. Inr (''import { '' @ toCamelCase referencedTable @ '' } from '' @ apos
                         @ ''../'' @ fileName @ apos @ '';'' @ newline))"

definition generateTableSchema_drizzle ::
  "TableConfig \<Rightarrow> EnumsConfig \<Rightarrow> string \<Rightarrow> error + string" where
  "generateTableSchema_drizzle t enums now =
     bindE (checkedTable t) (\<lambda>_.
       let content0 =
             generateFileHeader (''Drizzle schema for '' @ tableName t @ '' table'') now
       in case columns t of
            None \<Rightarrow> Inl TypeError
          | Some cs \<Rightarrow>
              (let imports0 = [(''drizzle-orm/pg-core'', sortStrings (pgCoreImports t cs))];
                   imports1 =
                     (if hasRelationships t
                      then imports0 @ [(''drizzle-orm'', sortStrings [''relations''])]
                      else imports0);
                   content1 = content0 @ generateImports imports1;
                   usedEnums = enumTypesUsed cs enums;
                   content2 =
                     (if length usedEnums > 0
                      then content1 @ ''// Enum imports'' @ newline
                           @ concat (map (enumImport enums) usedEnums) @ newline
                      else content1);
                   referencedTables = unique_first (foreignKeyTargets cs)
               in bindE (mapE tableImport referencedTables) (\<lambda>tableImports.
                    let content3 =
                          (if length referencedTables > 0
                           then content2 @ ''// Table imports for foreign keys'' @ newline
                                @ concat tableImports @ newline
                           else content2)
                    in bindE (generateTableDefinition t enums) (\<lambda>tableDefinition.
                         Inr (content3 @ tableDefinition @ generateRelations t)))))"

definition generateEnumsFile :: "EnumsConfig \<Rightarrow> string \<Rightarrow> string" where
  "generateEnumsFile enums now =
     generateFileHeader ''Drizzle enum definitions'' now
     @ generateImports [(''drizzle-orm/pg-core'', [''pgEnum''])]
     @ generateEnumDefinitions enums"

section \<open>Type files (scripts/models/generators/types.ts)\<close>

definition generateApiTypes :: "TableConfig \<Rightarrow> error + string" where
  "generateApiTypes t =
     bindE (toSingularPascalCase (tableName t)) (\<lambda>baseName.
       Inr (joinStrings (newline @ newline)
              [''export interface '' @ toPascalCase (tableName t) @ ''ListResponse {'' @ newline
               @ ''  data: '' @ baseName @ ''[];'' @ newline
               @ ''  total: number;'' @ newline
               @ ''  page: number;'' @ newline
               @ ''  limit: number;'' @ newline
               @ ''}'',
               ''export interface '' @ baseName @ ''Response {'' @ newline
               @ ''  data: '' @ baseName @ '';'' @ newline
               @ ''}'',
               ''export interface '' @ baseName @ ''CreateRequest {'' @ newline
               @ ''  data: '' @ baseName @ ''Insert;'' @ newline
               @ ''}'',
               ''export interface '' @ baseName @ ''UpdateRequest {'' @ newline
               @ ''  data: '' @ baseName @ ''Update;'' @ newline
               @ ''}'',
               ''export interface '' @ baseName @ ''DeleteResponse {'' @ newline
               @ ''  success: boolean;'' @ newline
               @ ''  message?: string;'' @ newline
               @ ''}'']))"

text \<open>White space and line terminators among the code units below 256.\<close>

definition isSpaceChar :: "char \<Rightarrow> bool" where
  "isSpaceChar c =
     (c \<in> set [CHR 0x09, CHR 0x0A, CHR 0x0B, CHR 0x0C, CHR 0x0D, CHR 0x20, CHR 0xA0])"

definition trim :: "string \<Rightarrow> string" where
  "trim str = rev (dropWhile isSpaceChar (rev (dropWhile isSpaceChar str)))"

text \<open>\<open>str.split(sep)[0]\<close> for a separator of one character\<close>

definition splitHead :: "char \<Rightarrow> string \<Rightarrow> string" where
  "splitHead sep str = takeWhile (\<lambda>c. c \<noteq> sep) str"

text \<open>\<open>str.replace("?", "")\<close>: the first question mark is removed.\<close>

fun removeFirst :: "char \<Rightarrow> string \<Rightarrow> string" where
  "removeFirst c [] = []"
| "removeFirst c (x # xs) = (if x = c then xs else x # removeFirst c xs)"

definition specificType :: "string \<Rightarrow> string \<Rightarrow> string" where
  "specificType baseName relation =
     (let relationName = trim (splitHead (CHR '':'') relation);
          relationTypeName = splitHead (CHR '' '') (removeFirst (CHR ''?'') relationName);
          specificTypeName = baseName @ ''With'' @ toPascalCase relationTypeName;
          requiredRelation = removeFirst (CHR ''?'') relation
      in ''export interface '' @ specificTypeName @ '' extends '' @ baseName @ '' {'' @ newline
         @ ''  '' @ requiredRelation @ newline @ ''}'')"

definition generateRelationshipTypes :: "TableConfig \<Rightarrow> TableConfig list \<Rightarrow> error + string" where
  "generateRelationshipTypes t allTables =
     bindE (toSingularPascalCase (tableName t)) (\<lambda>baseName.
     bindE (generateForeignKeyRelations t) (\<lambda>fkRelations.
     bindE (generateReverseRelations t allTables) (\<lambda>reverseRelations.
       let allRelations = fst fkRelations @ fst reverseRelations
       in if length allRelations = 0 then Inr []
          else
            (let withRelationsType =
                   ''export interface '' @ baseName @ ''WithRelations extends '' @ baseName
                   @ '' {'' @ newline @ joinStrings newline allRelations @ newline @ ''}'';
                 specificTypes = map (specificType baseName) (fst fkRelations);
                 result = joinStrings (newline @ newline) (withRelationsType # specificTypes)
             in Inr (newline @ ''// Relationship types'' @ newline @ result)))))"

definition generateTableTypes ::
  "TableConfig \<Rightarrow> EnumsConfig \<Rightarrow> TableConfig list \<Rightarrow> string \<Rightarrow> error + string" where
  "generateTableTypes t enums allTables now =
     bindE (checkedTable t) (\<lambda>_.
     bindE (toSingularPascalCase (tableName t)) (\<lambda>baseName.
       let content0 =
             generateFileHeader (''TypeScript extension types for '' @ tableName t @ '' table'') now;
           content1 =
             content0 @ ''// Import base types from validation schemas'' @ newline
             @ ''import type { '' @ baseName @ '', '' @ baseName @ ''Insert, '' @ baseName
             @ ''Update } from '' @ apos @ ''./validation'' @ apos @ '';'' @ newline @ newline
       in bindE (generateForeignKeyRelations t) (\<lambda>fkRelations.
          bindE (generateReverseRelations t allTables) (\<lambda>reverseRelations.
            let allRelationImports = unique_first (snd fkRelations @ snd reverseRelations);
                content2 =
                  (if length allRelationImports > 0
                   then content1 @ ''// Related table type imports'' @ newline
                        @ joinStrings newline allRelationImports @ newline @ newline
                   else content1);
                content3 =
                  content2 @ ''// Re-export base types for compatibility'' @ newline
                  @ ''export type { '' @ baseName @ '', '' @ baseName @ ''Insert, '' @ baseName
                  @ ''Update } from '' @ apos @ ''./validation'' @ apos @ '';'' @ newline @ newline
            in bindE (generateApiTypes t) (\<lambda>apiTypes.
                 let content4 =
                       content3 @ ''// API request/response types'' @ newline @ apiTypes @ newline
                 in bindE (generateRelationshipTypes t allTables) (\<lambda>relationshipTypes.
                      Inr (if relationshipTypes \<noteq> []
                           then content4 @ relationshipTypes @ newline
                           else content4)))))))"

definition generateEnumsTypes :: "EnumsConfig \<Rightarrow> string \<Rightarrow> string" where
  "generateEnumsTypes enums now =
     generateFileHeader ''TypeScript enum extension types'' now
     @ ''// Re-export base enum types from validation schemas'' @ newline
     @ concat (map (\<lambda>(enumName, config).
                      ''export type { '' @ toPascalCase enumName @ '' } from '' @ apos
                      @ ''./validation'' @ apos @ '';'' @ newline)
                 enums)
     @ newline"

section \<open>Aggregation files (scripts/models/utils/aggregation.ts)\<close>

datatype artifactKind = SchemaKind | TypesKind | ValidationKind

definition kindName :: "artifactKind \<Rightarrow> string" where
  "kindName kind =
     (case kind of SchemaKind \<Rightarrow> ''schema'' | TypesKind \<Rightarrow> ''types''
      | ValidationKind \<Rightarrow> ''validation'')"

definition descriptions :: "artifactKind \<Rightarrow> string" where
  "descriptions kind =
     (case kind of
        SchemaKind \<Rightarrow> ''Database schema aggregation for Drizzle Kit''
      | TypesKind \<Rightarrow> ''Types aggregation''
      | ValidationKind \<Rightarrow> ''Validation schemas aggregation'')"

definition generateModelAggregation ::
  "TableConfig list \<Rightarrow> artifactKind \<Rightarrow> string \<Rightarrow> error + string" where
  "generateModelAggregation tables kind now =
     (let content0 = generateFileHeader (descriptions kind) now;
          content1 =
            content0 @ ''// Export all enum '' @ kindName kind @ newline
            @ ''export * from '' @ apos @ ''./enums/'' @ kindName kind @ apos @ '';'' @ newline
            @ newline
            @ ''// Export all table '' @ kindName kind @ newline
      in bindE (mapE (\<lambda>t. bindE (toSingularCamelCase (tableName t))
                             (\<lambda>fileName. Inr (''export * from '' @ apos @ ''./'' @ fileName @ ''/''
                                               @ kindName kind @ apos @ '';'' @ newline)))
                  tables)
           (\<lambda>exports. Inr (content1 @ concat exports)))"

subsection \<open>Two runs of one generator\<close>

text \<open>
  The text of a second run, read against the first: the header of the first run is taken
  off and the header with the clock reading of the second run is put in its place.
\<close>

definition restamp :: "string \<Rightarrow> string \<Rightarrow> string \<Rightarrow> error + string \<Rightarrow> error + string" where
  "restamp description now now' r =
     (case r of
        Inl e \<Rightarrow> Inl e
      | Inr text \<Rightarrow>
          Inr (generateFileHeader description now'
               @ drop (length (generateFileHeader description now)) text))"

section \<open>Example descriptors\<close>

definition plainConstraints :: "string \<Rightarrow> ColumnConstraints" where
  "plainConstraints ty =
     \<lparr>ctype = ty, clength = None, precision = None, scale = None, nullable = None,
      cdefault = None, primaryKey = None, unique = None, references = None\<rparr>"

definition plainColumn :: "string \<Rightarrow> ColumnConfig" where
  "plainColumn ty = \<lparr>dbConstraints = plainConstraints ty, validation = None\<rparr>"

definition exTable :: "string \<Rightarrow> (string \<times> ColumnConfig) list option \<Rightarrow> TableConfig" where
  "exTable name cols =
     \<lparr>tableName = name, displayName = name, columns = cols, indexes = None,
      relationships = None\<rparr>"





text \<open>A primary key that is not nullable and marked \<open>required: false\<close>.\<close>

definition exKeyColumn :: ColumnConfig where
  "exKeyColumn =
     \<lparr>dbConstraints = (plainConstraints ''varchar'')\<lparr>primaryKey := Some True\<rparr>,
      validation = Some (emptyValidation\<lparr>required := Some False\<rparr>)\<rparr>"





text \<open>An integer column with a foreign key to the \<open>id\<close> of the named table.\<close>

definition referenceColumn :: "string \<Rightarrow> ColumnConfig" where
  "referenceColumn target =
     \<lparr>dbConstraints = (plainConstraints ''integer'')
        \<lparr>references := Some \<lparr>table = target, column = ''id'', onDelete = None\<rparr>\<rparr>,
      validation = None\<rparr>"

text \<open>
  \<open>bookings\<close> refers to \<open>guests\<close>; \<open>guests\<close> declares no relationship of its own.
\<close>

definition exBookings :: TableConfig where
  "exBookings =
     exTable ''bookings''
       (Some [(''id'', plainColumn ''serial''), (''guest_id'', referenceColumn ''guests'')])"

definition exGuests :: TableConfig where
  "exGuests = exTable ''guests'' (Some [(''id'', plainColumn ''serial'')])"

text \<open>Two tables, \<open>user\<close> and \<open>users\<close>, that both refer to \<open>guests\<close>.\<close>

definition exGuestUser :: TableConfig where
  "exGuestUser =
     exTable ''user''
       (Some [(''id'', plainColumn ''serial''), (''guest_id'', referenceColumn ''guests'')])"

definition exGuestUsers :: TableConfig where
  "exGuestUsers =
     exTable ''users''
       (Some [(''id'', plainColumn ''serial''), (''guest_id'', referenceColumn ''guests'')])"

text \<open>
  \<open>items\<close> refers to itself. A second descriptor carries the same table name with other
  columns, and \<open>items_archive\<close> shares the prefix of the name.
\<close>

definition exItems :: TableConfig where
  "exItems =
     exTable ''items''
       (Some [(''id'', plainColumn ''serial''), (''parent_id'', referenceColumn ''items'')])"

definition exItemsTwin :: TableConfig where
  "exItemsTwin =
     exTable ''items''
       (Some [(''id'', plainColumn ''serial''), (''owner_id'', referenceColumn ''items'')])"

definition exItemsArchive :: TableConfig where
  "exItemsArchive =
     exTable ''items_archive''
       (Some [(''id'', plainColumn ''serial''), (''item_id'', referenceColumn ''items'')])"

section \<open>Properties of the validator\<close>

text \<open>
  C5. The validator is to return a list of issues for every table configuration, also
  when the column map is absent, and never throw. For the descriptor
  \<open>{"tableName": "users", "displayName": "users"}\<close>, which has no \<open>columns\<close> member, the
  guard \<open>!table.columns\<close> records the missing columns and the next statement,
  \<open>Object.values(table.columns)\<close>, throws a TypeError.
\<close>

theorem validateTableConfig_absent_columns_throws:
  "validateTableConfig (exTable ''users'' None) = Inl TypeError"
  by (simp add: validateTableConfig_def exTable_def)

text \<open>
  C6, as the code has it. For a table whose column map is present, the validator returns
  one issue per failed check, in the order missing name, empty column set, missing primary
  key, and the list is empty exactly when the name is non-empty and some column is flagged
  primary key or has the type serial (so the column set is non-empty as well).
\<close>

theorem validateTableConfig_issues:
  assumes "columns t = Some cs"
  shows "validateTableConfig t =
           Inr ((if tableName t = [] then [''Table must have a tableName''] else [])
                @ (if cs = [] then [''Table must have at least one column''] else [])
                @ (if list_ex isPrimaryKeyColumn cs then []
                   else [''Table must have a primary key'']))
         \<and> (validateTableConfig t = Inr [] \<longleftrightarrow>
              tableName t \<noteq> [] \<and> cs \<noteq> [] \<and> list_ex isPrimaryKeyColumn cs)"
  using assms by (cases cs) (simp_all add: validateTableConfig_def)

theorem validateTableConfig_issues_witness:
  "validateTableConfig (exTable ''users'' (Some [(''id'', plainColumn ''serial'')])) = Inr []
   \<and> validateTableConfig (exTable [] (Some [])) =
       Inr [''Table must have a tableName'', ''Table must have at least one column'',
            ''Table must have a primary key'']"
  using validateTableConfig_issues
          [of "exTable ''users'' (Some [(''id'', plainColumn ''serial'')])"
              "[(''id'', plainColumn ''serial'')]"]
        validateTableConfig_issues [of "exTable [] (Some [])" "[]"]
  by (simp add: exTable_def isPrimaryKeyColumn_def plainColumn_def plainConstraints_def)

text \<open>
  C6 as stated fails for a table without a name: it has a column, and that column is of
  type serial, yet the list of issues is not empty.
\<close>

theorem validateTableConfig_nameless_counterexample:
  "validateTableConfig (exTable [] (Some [(''id'', plainColumn ''serial'')])) =
     Inr [''Table must have a tableName'']
   \<and> list_ex isPrimaryKeyColumn [(''id'', plainColumn ''serial'')]"
  by (simp add: validateTableConfig_def exTable_def isPrimaryKeyColumn_def plainColumn_def
      plainConstraints_def)

section \<open>Properties of the storage types\<close>

lemmas descriptor_defs =
  exTable_def plainColumn_def plainConstraints_def emptyValidation_def validationOf_def
  truthyBool_def truthyNumber_def truthyString_def


subsection \<open>Method calls of a text put together from pieces\<close>

lemma afterDots_append:
  "afterDots (a @ b) = map (\<lambda>s. s @ b) (afterDots a) @ afterDots b"
  by (induction a) simp_all

























lemma closedText_append: "closedText a \<Longrightarrow> closedText b \<Longrightarrow> closedText (a @ b)"
  by (auto simp: closedText_def afterDots_append list_all_iff)



























section \<open>Properties of the validation schemas\<close>

lemma digits_last: "digits n \<noteq> [] \<and> last (digits n) \<in> set ''0123456789''"
proof (induction n rule: digits.induct)
  case (1 n)
  have d: "k < 10 \<Longrightarrow> digitChar k \<in> set ''0123456789''" for k
    unfolding digitChar_def by (rule nth_mem) simp
  show ?case
    by (subst (1 2) digits.simps) (use d[of n] d[of "n mod 10"] in simp)
qed

lemma showNumber_last: "showNumber i \<noteq> [] \<and> last (showNumber i) \<in> set ''0123456789''"
  using digits_last by (simp add: showNumber_def)

text \<open>Read from its end, a printed number does not start with an opening parenthesis.\<close>

lemma rev_showNumber_paren:
  "prefix (CHR ''('' # s) (rev (showNumber n) @ ys) = False"
proof -
  obtain xs d where x: "showNumber n = xs @ [d]" "d \<in> set ''0123456789''"
    using showNumber_last[of n] by (metis append_butlast_last_id)
  show ?thesis using x by auto
qed

lemma tailOK_append: "tailOK b \<Longrightarrow> (b = [] \<Longrightarrow> tailOK a) \<Longrightarrow> tailOK (a @ b)"
  unfolding tailOK_def by (metis append.assoc append_Nil2 append_is_Nil_conv)

lemma tailOK_if: "(b \<Longrightarrow> tailOK x) \<Longrightarrow> (\<not> b \<Longrightarrow> tailOK y) \<Longrightarrow> tailOK (if b then x else y)"
  by simp

lemma tailOK_case_option:
  "(opt = None \<Longrightarrow> tailOK x) \<Longrightarrow> (\<And>v. opt = Some v \<Longrightarrow> tailOK (f v)) \<Longrightarrow>
   tailOK (case opt of None \<Rightarrow> x | Some v \<Rightarrow> f v)"
  by (cases opt) simp_all

lemma tailOK_pieces:
  "tailOK []"
  "tailOK (zodMin v)" "tailOK (zodMax v)" "tailOK (zodMaxOrLength v d)" "tailOK (zodPattern v)"
  "tailOK (zodDateMin v)" "tailOK (zodDateMax v)" "tailOK priceFormatType"
  "tailOK ''z.email()''" "tailOK ''z.url()''" "tailOK ''z.string()''"
  "tailOK ''z.number().int()''" "tailOK ''z.date()''" "tailOK ''z.boolean()''"
  "tailOK ''Schema''"
  by (simp_all add: tailOK_def suffix_to_prefix zodMin_def zodMax_def zodMaxOrLength_def
      zodPattern_def zodDateMin_def zodDateMax_def priceFormatType_def rev_showNumber_paren)

lemma tailOK_generateBaseZodType: "tailOK (generateBaseZodType c e)"
  unfolding generateBaseZodType_def Let_def
  apply (intro tailOK_if tailOK_case_option tailOK_append tailOK_pieces)
  apply simp_all
  done

lemma addDefaultValue_append: "addDefaultValue z c = z @ addDefaultValue [] c"
  by (simp add: addDefaultValue_def Let_def split: option.split jsvalue.split)

lemma tailOK_addDefaultValue: "tailOK (addDefaultValue [] c)"
  by (simp add: addDefaultValue_def Let_def tailOK_def suffix_to_prefix showValue_def
      rev_showNumber_paren split: option.split jsvalue.split)

text \<open>The type, bounds, pattern and default of a field never end in an optional modifier.\<close>

lemma no_optional_suffix:
  "\<not> suffix ''.optional()''
       (''  '' @ toCamelCase n @ '': '' @ addDefaultValue (generateBaseZodType c e) c)"
proof -
  let ?td = "addDefaultValue (generateBaseZodType c e) c"
  have t: "tailOK ?td"
    by (subst addDefaultValue_append)
       (intro tailOK_append tailOK_addDefaultValue tailOK_generateBaseZodType)
  have s: "suffix ''al()'' ''.optional()''" by (simp add: suffix_to_prefix)
  show ?thesis
  proof (cases "?td = []")
    case True
    then show ?thesis by (simp add: suffix_to_prefix)
  next
    case False
    with t have "\<not> suffix ''al()'' ((''  '' @ toCamelCase n @ '': '') @ ?td)"
      unfolding tailOK_def by blast
    then have nn: "\<not> suffix ''al()'' (''  '' @ toCamelCase n @ '': '' @ ?td)"
      by simp
    show ?thesis
      using suffix_order.trans[OF s] nn by blast
  qed
qed

lemmas zod_defs =
  generateBaseSchemaField_def generateBaseZodType_def addDefaultValue_def Let_def zodMin_def
  zodMax_def zodMaxOrLength_def zodPattern_def zodDateMin_def zodDateMax_def showValue_def
  findEnumKey_def isNumericType_def

lemma base_field_shape:
  "generateBaseSchemaField n c e =
     (''  '' @ toCamelCase n @ '': '' @ addDefaultValue (generateBaseZodType c e) c)
     @ (if truthyBool (nullable (dbConstraints c)) then ''.nullable()''
        else if required (validationOf c) = Some False \<and> \<not> truthyBool (primaryKey (dbConstraints c))
        then ''.optional()'' else [])"
  by (simp add: generateBaseSchemaField_def Let_def)

lemma base_field_optional_iff:
  "suffix ''.optional()'' (generateBaseSchemaField n c e) \<longleftrightarrow>
     required (validationOf c) = Some False \<and> \<not> truthyBool (nullable (dbConstraints c))
     \<and> \<not> truthyBool (primaryKey (dbConstraints c))"
proof -
  let ?core = "''  '' @ toCamelCase n @ '': '' @ addDefaultValue (generateBaseZodType c e) c"
  have a: "\<not> suffix ''.optional()'' (?core @ ''.nullable()'')"
    by (simp add: suffix_to_prefix)
  have b: "suffix ''.optional()'' (?core @ ''.optional()'')"
    by (rule suffixI) simp
  have c: "\<not> suffix ''.optional()'' ?core"
    by (rule no_optional_suffix)
  show ?thesis
    unfolding base_field_shape using a b c by (simp only: append_Nil2 split: if_split) blast
qed

subsection \<open>Calls of the optional modifier\<close>

lemma optionalFree_Nil: "optionalFree []"
  by (simp add: optionalFree_def)

















text \<open>
  C10. The base field of a column flagged primary key never ends in the optional modifier,
  whatever its validation rules say: it is the type with its default, followed by the
  nullable modifier when the column is nullable.
\<close>

theorem primary_key_never_optional:
  assumes "truthyBool (primaryKey (dbConstraints c))"
  shows "\<not> suffix ''.optional()'' (generateBaseSchemaField n c e)
         \<and> generateBaseSchemaField n c e =
             ''  '' @ toCamelCase n @ '': '' @ addDefaultValue (generateBaseZodType c e) c
             @ (if truthyBool (nullable (dbConstraints c)) then ''.nullable()'' else [])"
  using assms base_field_optional_iff [of n c e] by (simp add: base_field_shape)

theorem primary_key_never_optional_witness:
  "truthyBool (primaryKey (dbConstraints exKeyColumn))
   \<and> required (validationOf exKeyColumn) = Some False
   \<and> \<not> truthyBool (nullable (dbConstraints exKeyColumn))
   \<and> generateBaseSchemaField ''code'' exKeyColumn [] = ''  code: z.string()''"
  using primary_key_never_optional [of exKeyColumn "''code''" "[]"]
  by (simp add: descriptor_defs exKeyColumn_def zod_defs)










section \<open>Properties of the relations\<close>

lemma reverseColumnLoop_ok:
  assumes "toSingular other = Some s"
  shows "\<exists>imps'. reverseColumnLoop cur other cs (rels, imps) =
           Inr (rels @ replicate (length (referencingColumns cur cs))
                         (incomingRelation (pluralName (toCamelCase other)) (toPascalCase s)),
                imps')"
  using assms
proof (induction cs arbitrary: rels imps)
  case Nil
  then show ?case by (simp add: referencingColumns_def)
next
  case (Cons entry cs)
  obtain columnName columnConfig where e: "entry = (columnName, columnConfig)"
    by (cases entry)
  show ?case
  proof (cases "references (dbConstraints columnConfig)")
    case None
    with Cons e show ?thesis by (simp add: referencingColumns_def)
  next
    case (Some r)
    show ?thesis
    proof (cases "table r = cur")
      case True
      let ?x = "incomingRelation (pluralName (toCamelCase other)) (toPascalCase s)"
      from Cons.IH [OF Cons.prems, of "rels @ [?x]" "pushImport imps (toPascalCase s) (toCamelCase s)"]
      obtain imps' where
        "reverseColumnLoop cur other cs (rels @ [?x], pushImport imps (toPascalCase s) (toCamelCase s))
         = Inr ((rels @ [?x]) @ replicate (length (referencingColumns cur cs)) ?x, imps')"
        by blast
      with Some True e Cons.prems show ?thesis
        by (simp add: referencingColumns_def toSingularPascalCase_def toSingularCamelCase_def
            replicate_append_same)
    next
      case False
      with Cons Some e show ?thesis by (simp add: referencingColumns_def)
    qed
  qed
qed

lemma reverseColumnLoop_none:
  "referencingColumns cur cs = [] \<Longrightarrow> reverseColumnLoop cur other cs acc = Inr acc"
proof (induction cs)
  case Nil
  then show ?case by simp
next
  case (Cons entry cs)
  obtain columnName columnConfig where e: "entry = (columnName, columnConfig)"
    by (cases entry)
  obtain rels imps where a: "acc = (rels, imps)" by (cases acc)
  from Cons e a show ?case
    by (auto simp: referencingColumns_def split: option.splits if_splits)
qed

lemma reverseTableLoop_ok:
  assumes "scannable cur allTables"
  shows "\<exists>imps'. reverseTableLoop cur allTables (rels, imps) =
           Inr (rels @ concat (map (incomingContribution cur) allTables), imps')"
  using assms
proof (induction allTables arbitrary: rels imps)
  case Nil
  then show ?case by simp
next
  case (Cons other rest)
  from Cons.prems have rest: "scannable cur rest" by (simp add: scannable_def)
  show ?case
  proof (cases "tableName other = cur")
    case True
    with Cons.IH [OF rest, of rels imps] show ?thesis
      by (simp add: incomingContribution_def [of cur other])
  next
    case False
    with Cons.prems obtain cs where cs: "columns other = Some cs" 
      and sing: "referencesTable cur other \<longrightarrow> toSingular (tableName other) \<noteq> None"
      by (auto simp: scannable_def)
    show ?thesis
    proof (cases "referencingColumns cur cs = []")
      case True
      with Cons.IH [OF rest, of rels imps] False cs show ?thesis
        by (simp add: incomingContribution_def [of cur other] reverseColumnLoop_none)
    next
      case nonempty: False
      with sing cs obtain s where s: "toSingular (tableName other) = Some s"
        by (auto simp: referencesTable_def)
      let ?x = "incomingRelation (pluralName (toCamelCase (tableName other))) (toPascalCase s)"
      let ?k = "length (referencingColumns cur cs)"
      from reverseColumnLoop_ok [OF s, of cur cs rels imps] obtain imps1 where
        c: "reverseColumnLoop cur (tableName other) cs (rels, imps) = Inr (rels @ replicate ?k ?x, imps1)"
        by blast
      from Cons.IH [OF rest, of "rels @ replicate ?k ?x" imps1] obtain imps2 where
        "reverseTableLoop cur rest (rels @ replicate ?k ?x, imps1) =
           Inr ((rels @ replicate ?k ?x) @ concat (map (incomingContribution cur) rest), imps2)"
        by blast
      with c False cs s show ?thesis
        by (simp add: incomingContribution_def [of cur other] incomingEntry_def)
    qed
  qed
qed

lemma reverseTableLoop_filter:
  "reverseTableLoop cur (filter (\<lambda>other. tableName other \<noteq> cur) allTables) acc =
   reverseTableLoop cur allTables acc"
  by (induction allTables arbitrary: acc) (auto split: option.splits sum.splits)

lemma count_list_concat_zero:
  "(\<And>x. x \<in> set xs \<Longrightarrow> count_list (f x) e = 0) \<Longrightarrow> count_list (concat (map f xs)) e = 0"
  by (induction xs) simp_all

lemma count_list_replicate: "count_list (replicate k x) y = (if x = y then k else 0)"
  by (induction k) auto

lemma foreignKeyLoop_ok:
  assumes "\<forall>name \<in> set (foreignKeyTargets cs). toSingular name \<noteq> None"
  shows "\<exists>imps'. foreignKeyLoop cs (rels, imps) =
           Inr (rels @ map (\<lambda>name. the (outgoingEntry name)) (foreignKeyTargets cs), imps')"
  using assms
proof (induction cs arbitrary: rels imps)
  case Nil
  then show ?case by (simp add: foreignKeyTargets_def)
next
  case (Cons entry cs)
  obtain columnName columnConfig where e: "entry = (columnName, columnConfig)"
    by (cases entry)
  from Cons.prems have rest: "\<forall>name \<in> set (foreignKeyTargets cs). toSingular name \<noteq> None"
    by (simp add: foreignKeyTargets_def)
  show ?case
  proof (cases "references (dbConstraints columnConfig)")
    case None
    with Cons.IH [OF rest, of rels imps] e show ?thesis by (simp add: foreignKeyTargets_def)
  next
    case (Some r)
    with Cons.prems e obtain s where s: "toSingular (table r) = Some s"
      by (auto simp: foreignKeyTargets_def)
    let ?x = "outgoingRelation (toCamelCase s) (toPascalCase s)"
    from Cons.IH [OF rest, of "rels @ [?x]" "pushImport imps (toPascalCase s) (toCamelCase s)"]
    obtain imps' where
      "foreignKeyLoop cs (rels @ [?x], pushImport imps (toPascalCase s) (toCamelCase s)) =
         Inr ((rels @ [?x]) @ map (\<lambda>name. the (outgoingEntry name)) (foreignKeyTargets cs), imps')"
      by blast
    with Some e s show ?thesis
      by (simp add: foreignKeyTargets_def toSingularCamelCase_def toSingularPascalCase_def
          outgoingEntry_def)
  qed
qed

lemma count_list_foreignKeyTargets:
  "count_list (foreignKeyTargets cs) name = length (referencingColumns name cs)"
  by (induction cs) (auto simp: foreignKeyTargets_def referencingColumns_def split: option.splits)

lemma count_list_map_separated:
  "(\<And>x. x \<in> set xs \<Longrightarrow> x \<noteq> b \<Longrightarrow> f x \<noteq> f b) \<Longrightarrow>
   count_list (map f xs) (f b) = count_list xs b"
  by (induction xs) auto


lemma incomingContribution_count_zero:
  assumes "scannable cur allTables" and "other \<in> set allTables"
    and "tableName other \<noteq> cur \<and> referencesTable cur other \<longrightarrow> incomingEntry (tableName other) \<noteq> Some entry"
  shows "count_list (incomingContribution cur other) entry = 0"
proof (cases "tableName other = cur")
  case True
  then show ?thesis by (simp add: incomingContribution_def)
next
  case False
  with assms(1,2) obtain cs where cs: "columns other = Some cs"
    and sing: "referencesTable cur other \<longrightarrow> toSingular (tableName other) \<noteq> None"
    by (auto simp: scannable_def list_all_iff)
  show ?thesis
  proof (cases "referencingColumns cur cs = []")
    case True
    with False cs show ?thesis by (simp add: incomingContribution_def)
  next
    case nonempty: False
    with cs have r: "referencesTable cur other" by (simp add: referencesTable_def)
    with sing obtain s where "toSingular (tableName other) = Some s" by auto
    then obtain x where x: "incomingEntry (tableName other) = Some x"
      by (simp add: incomingEntry_def)
    with assms(3) False r have "x \<noteq> entry" by auto
    with False cs x show ?thesis
      by (simp add: incomingContribution_def count_list_replicate)
  qed
qed

lemma generateReverseRelations_ok:
  assumes "scannable (tableName t) allTables"
  shows "\<exists>imps. generateReverseRelations t allTables =
           Inr (concat (map (incomingContribution (tableName t)) allTables), imps)"
  using reverseTableLoop_ok [OF assms, of "[]" "[]"] by (simp add: generateReverseRelations_def)

text \<open>
  C3, as the code has it. The scan for the incoming relations of a table skips every table
  whose name equals the name of that table: the table itself, so that a table that refers
  to itself gets no relation to itself, and any other descriptor with the same name. A
  table with a different name, also one that shares a prefix, is scanned and contributes
  its entry once per referring column. The test is \<open>otherTable.tableName === currentTableName\<close>.
\<close>

theorem incoming_scan_skips_by_name:
  "generateReverseRelations t (filter (\<lambda>other. tableName other \<noteq> tableName t) allTables)
     = generateReverseRelations t allTables
   \<and> (scannable (tableName t) allTables \<longrightarrow>
        (\<exists>imps. generateReverseRelations t allTables =
           Inr (concat (map (incomingContribution (tableName t)) allTables), imps)))
   \<and> (\<forall>other \<in> set allTables. tableName other = tableName t \<longrightarrow>
          incomingContribution (tableName t) other = [])
   \<and> (\<forall>other \<in> set allTables.
          scannable (tableName t) allTables \<and> tableName other \<noteq> tableName t
          \<and> referencesTable (tableName t) other \<longrightarrow>
          (\<exists>entry rels imps.
              incomingEntry (tableName other) = Some entry
              \<and> generateReverseRelations t allTables = Inr (rels, imps)
              \<and> entry \<in> set rels))"
proof -
  have scanned: "\<exists>entry rels imps.
              incomingEntry (tableName other) = Some entry
              \<and> generateReverseRelations t allTables = Inr (rels, imps)
              \<and> entry \<in> set rels"
    if "other \<in> set allTables" "scannable (tableName t) allTables"
       "tableName other \<noteq> tableName t" "referencesTable (tableName t) other" for other
  proof -
    from that obtain cs where cs: "columns other = Some cs"
      and ne: "referencingColumns (tableName t) cs \<noteq> []"
      by (auto simp: referencesTable_def split: option.splits)
    from that have "toSingular (tableName other) \<noteq> None"
      by (auto simp: scannable_def list_all_iff)
    then obtain x where x: "incomingEntry (tableName other) = Some x"
      by (auto simp: incomingEntry_def)
    with cs ne that(3) have "x \<in> set (incomingContribution (tableName t) other)"
      by (simp add: incomingContribution_def)
    with that(1) have
      "x \<in> set (concat (map (incomingContribution (tableName t)) allTables))"
      by auto
    with generateReverseRelations_ok [OF that(2)] x show ?thesis
      by fastforce
  qed
  show ?thesis
    using generateReverseRelations_ok [of t allTables] scanned
    by (simp add: generateReverseRelations_def reverseTableLoop_filter incomingContribution_def)
qed

text \<open>
  C2, as the code has it. Let A and B be tables with different names, A a member of a
  loaded list without repeated tables, and let exactly one column of A carry a foreign key
  to the name of B. Let the tables that the scan reads have column maps, and the names that
  are singularised be accepted by \<open>toSingular\<close>. Then both resolutions return; the incoming
  relations of B contain the entry that names A (camel case, with an s appended unless it
  ends in s) exactly once provided no other referring table of the list yields the same
  entry, and the outgoing relations of A contain the entry that names B exactly once
  provided no other foreign key of A yields the same entry. Nothing that B declares is
  read.
\<close>

theorem foreign_key_round_trip:
  assumes cols: "columns A = Some csA"
    and one: "length (referencingColumns (tableName B) csA) = 1"
    and mem: "A \<in> set allTables"
    and dist: "distinct allTables"
    and names: "tableName A \<noteq> tableName B"
    and scan: "scannable (tableName B) allTables"
    and sing: "\<forall>name \<in> set (foreignKeyTargets csA). toSingular name \<noteq> None"
    and apart_in: "\<forall>other \<in> set allTables.
        other \<noteq> A \<and> tableName other \<noteq> tableName B \<and> referencesTable (tableName B) other
        \<longrightarrow> incomingEntry (tableName other) \<noteq> incomingEntry (tableName A)"
    and apart_out: "\<forall>name \<in> set (foreignKeyTargets csA).
        name \<noteq> tableName B \<longrightarrow> outgoingEntry name \<noteq> outgoingEntry (tableName B)"
  shows "\<exists>incoming outgoing rels imps rels' imps'.
           incomingEntry (tableName A) = Some incoming
           \<and> outgoingEntry (tableName B) = Some outgoing
           \<and> generateReverseRelations B allTables = Inr (rels, imps)
           \<and> count_list rels incoming = 1
           \<and> generateForeignKeyRelations A = Inr (rels', imps')
           \<and> count_list rels' outgoing = 1"
proof -
  let ?cur = "tableName B"
  from cols one have refA: "referencesTable ?cur A"
    by (auto simp: referencesTable_def)
  with scan mem names obtain sA where sA: "toSingular (tableName A) = Some sA"
    by (auto simp: scannable_def list_all_iff)
  then obtain incoming where inc: "incomingEntry (tableName A) = Some incoming"
    by (simp add: incomingEntry_def)
  from generateReverseRelations_ok [OF scan] obtain imps where
    rev: "generateReverseRelations B allTables =
            Inr (concat (map (incomingContribution ?cur) allTables), imps)"
    by blast
  from mem obtain xs ys where split: "allTables = xs @ A # ys"
    by (auto dest: split_list)
  with dist have notin: "A \<notin> set xs" "A \<notin> set ys" by auto
  have zero: "count_list (incomingContribution ?cur other) incoming = 0"
    if "other \<in> set xs \<union> set ys" for other
  proof (rule incomingContribution_count_zero [OF scan])
    from that split show "other \<in> set allTables" by auto
    from that notin have "other \<noteq> A" by auto
    with apart_in inc that split
    show "tableName other \<noteq> ?cur \<and> referencesTable ?cur other \<longrightarrow>
            incomingEntry (tableName other) \<noteq> Some incoming"
      by auto
  qed
  have own: "incomingContribution ?cur A = [incoming]"
    using cols one names inc by (simp add: incomingContribution_def)
  have count_in: "count_list (concat (map (incomingContribution ?cur) allTables)) incoming = 1"
    using zero own by (simp add: split count_list_concat_zero)
  from one have "tableName B \<in> set (foreignKeyTargets csA)"
    using count_list_foreignKeyTargets [of csA "tableName B"]
    by (metis count_notin zero_neq_one)
  with sing obtain sB where sB: "toSingular (tableName B) = Some sB" by auto
  then obtain outgoing where out: "outgoingEntry (tableName B) = Some outgoing"
    by (simp add: outgoingEntry_def)
  from foreignKeyLoop_ok [OF sing, of "[]" "[]"] cols obtain imps' where
    fk: "generateForeignKeyRelations A =
           Inr (map (\<lambda>name. the (outgoingEntry name)) (foreignKeyTargets csA), imps')"
    by (auto simp: generateForeignKeyRelations_def)
  have sep: "the (outgoingEntry name) \<noteq> the (outgoingEntry (tableName B))"
    if "name \<in> set (foreignKeyTargets csA)" "name \<noteq> tableName B" for name
  proof -
    from that sing obtain s where "toSingular name = Some s" by auto
    then obtain x where "outgoingEntry name = Some x" by (simp add: outgoingEntry_def)
    with apart_out that out show ?thesis by auto
  qed
  have "count_list (map (\<lambda>name. the (outgoingEntry name)) (foreignKeyTargets csA))
          (the (outgoingEntry (tableName B))) = count_list (foreignKeyTargets csA) (tableName B)"
    by (rule count_list_map_separated) (use sep in auto)
  with one out have count_out:
    "count_list (map (\<lambda>name. the (outgoingEntry name)) (foreignKeyTargets csA)) outgoing = 1"
    by (simp add: count_list_foreignKeyTargets)
  from inc out rev count_in fk count_out show ?thesis by blast
qed


lemma ex_incoming_guests:
  "generateReverseRelations exGuests [exBookings, exGuests] =
     Inr ([''  bookings?: Booking[];''], [''import type { Booking } from '../booking';''])"
  by code_simp

lemma ex_outgoing_bookings:
  "generateForeignKeyRelations exBookings =
     Inr ([''  guest?: Guest;''], [''import type { Guest } from '../guest';''])"
  by code_simp

lemma ex_round_trip_facts:
  "columns exBookings = Some [(''id'', plainColumn ''serial''), (''guest_id'', referenceColumn ''guests'')]"
  "length (referencingColumns (tableName exGuests)
      [(''id'', plainColumn ''serial''), (''guest_id'', referenceColumn ''guests'')]) = 1"
  "exBookings \<in> set [exBookings, exGuests]"
  "distinct [exBookings, exGuests]"
  "tableName exBookings \<noteq> tableName exGuests"
  "scannable (tableName exGuests) [exBookings, exGuests]"
  "\<forall>name \<in> set (foreignKeyTargets [(''id'', plainColumn ''serial''), (''guest_id'', referenceColumn ''guests'')]).
     toSingular name \<noteq> None"
  "\<forall>other \<in> set [exBookings, exGuests].
     other \<noteq> exBookings \<and> tableName other \<noteq> tableName exGuests
     \<and> referencesTable (tableName exGuests) other
     \<longrightarrow> incomingEntry (tableName other) \<noteq> incomingEntry (tableName exBookings)"
  "\<forall>name \<in> set (foreignKeyTargets [(''id'', plainColumn ''serial''), (''guest_id'', referenceColumn ''guests'')]).
     name \<noteq> tableName exGuests \<longrightarrow> outgoingEntry name \<noteq> outgoingEntry (tableName exGuests)"
  by code_simp+

theorem foreign_key_round_trip_witness:
  "relationships exGuests = None
   \<and> generateReverseRelations exGuests [exBookings, exGuests] =
       Inr ([''  bookings?: Booking[];''], [''import type { Booking } from '../booking';''])
   \<and> generateForeignKeyRelations exBookings =
       Inr ([''  guest?: Guest;''], [''import type { Guest } from '../guest';''])
   \<and> (\<exists>incoming outgoing rels imps rels' imps'.
         incomingEntry (tableName exBookings) = Some incoming
         \<and> outgoingEntry (tableName exGuests) = Some outgoing
         \<and> generateReverseRelations exGuests [exBookings, exGuests] = Inr (rels, imps)
         \<and> count_list rels incoming = 1
         \<and> generateForeignKeyRelations exBookings = Inr (rels', imps')
         \<and> count_list rels' outgoing = 1)"
  using foreign_key_round_trip [OF ex_round_trip_facts]
        ex_incoming_guests ex_outgoing_bookings
  by (simp add: exGuests_def exTable_def)

text \<open>
  C2 as stated fails when two referring tables yield the same entry: \<open>user\<close> and
  \<open>users\<close> both refer to \<open>guests\<close>, and the incoming relations of \<open>guests\<close> hold the entry
  that names \<open>users\<close> twice.
\<close>

theorem foreign_key_round_trip_counterexample:
  "generateReverseRelations exGuests [exGuestUser, exGuestUsers, exGuests] =
     Inr ([''  users?: User[];'', ''  users?: User[];''],
          [''import type { User } from '../user';'', ''import type { User } from '../user';''])
   \<and> tableName exGuestUser \<noteq> tableName exGuestUsers
   \<and> incomingEntry (tableName exGuestUsers) = Some ''  users?: User[];''"
  by code_simp

theorem incoming_scan_skips_by_name_witness:
  "scannable (tableName exItems) [exItems, exItemsArchive, exItemsTwin]
   \<and> generateReverseRelations exItems [exItems, exItemsArchive, exItemsTwin] =
       Inr ([''  itemsArchives?: ItemsArchive[];''],
            [''import type { ItemsArchive } from '../itemsArchive';''])
   \<and> generateReverseRelations exItems [exItemsArchive] =
       Inr ([''  itemsArchives?: ItemsArchive[];''],
            [''import type { ItemsArchive } from '../itemsArchive';''])
   \<and> incomingContribution (tableName exItems) exItems = []
   \<and> incomingContribution (tableName exItems) exItemsTwin = []"
proof -
  have s: "scannable (tableName exItems) [exItems, exItemsArchive, exItemsTwin]"
    by code_simp
  have f: "filter (\<lambda>other. tableName other \<noteq> tableName exItems)
             [exItems, exItemsArchive, exItemsTwin] = [exItemsArchive]"
    by code_simp
  have r: "generateReverseRelations exItems [exItemsArchive] =
       Inr ([''  itemsArchives?: ItemsArchive[];''],
            [''import type { ItemsArchive } from '../itemsArchive';''])"
    by code_simp
  have n: "tableName exItemsTwin = tableName exItems"
    by code_simp
  show ?thesis
    using incoming_scan_skips_by_name [of exItems "[exItems, exItemsArchive, exItemsTwin]"]
          s f r n
    by simp
qed

text \<open>
  C3 as stated says that a distinct table with an equal name is still scanned. The second
  descriptor named \<open>items\<close> refers to \<open>items\<close> and contributes nothing.
\<close>

theorem incoming_scan_skips_by_name_counterexample:
  "generateReverseRelations exItems [exItems, exItemsTwin] = Inr ([], [])
   \<and> exItemsTwin \<noteq> exItems
   \<and> tableName exItemsTwin = tableName exItems
   \<and> referencesTable (tableName exItems) exItemsTwin"
  by code_simp

section \<open>Properties of the emitted files\<close>

lemma rerun_validation:
  "generateTableValidation t enums now' =
     restamp (''Zod validation schemas for '' @ tableName t @ '' table'') now now'
       (generateTableValidation t enums now)"
proof -
  define d where "d = ''Zod validation schemas for '' @ tableName t @ '' table''"
  show ?thesis
    unfolding generateTableValidation_def Let_def d_def [symmetric]
    by (simp add: bindE_def restamp_def split: sum.splits option.splits)
qed

lemma rerun_storage:
  "generateTableSchema_drizzle t enums now' =
     restamp (''Drizzle schema for '' @ tableName t @ '' table'') now now'
       (generateTableSchema_drizzle t enums now)"
proof -
  define d where "d = ''Drizzle schema for '' @ tableName t @ '' table''"
  show ?thesis
    unfolding generateTableSchema_drizzle_def Let_def d_def [symmetric]
    by (simp add: bindE_def restamp_def split: sum.splits option.splits)
qed

lemma rerun_types:
  "generateTableTypes t enums allTables now' =
     restamp (''TypeScript extension types for '' @ tableName t @ '' table'') now now'
       (generateTableTypes t enums allTables now)"
proof -
  define d where "d = ''TypeScript extension types for '' @ tableName t @ '' table''"
  show ?thesis
    unfolding generateTableTypes_def Let_def d_def [symmetric]
    by (simp add: bindE_def restamp_def split: sum.splits option.splits)
qed

lemma rerun_aggregation:
  "generateModelAggregation tables kind now' =
     restamp (descriptions kind) now now' (generateModelAggregation tables kind now)"
  unfolding generateModelAggregation_def Let_def
  by (simp add: bindE_def restamp_def split: sum.splits option.splits)

lemma rerun_enums:
  "Inr (generateEnumsValidation enums now') =
     restamp ''Zod enum validation schemas'' now now' (Inr (generateEnumsValidation enums now))"
  "Inr (generateEnumsFile enums now') =
     restamp ''Drizzle enum definitions'' now now' (Inr (generateEnumsFile enums now))"
  "Inr (generateEnumsTypes enums now') =
     restamp ''TypeScript enum extension types'' now now' (Inr (generateEnumsTypes enums now))"
proof -
  define d1 where "d1 = ''Zod enum validation schemas''"
  define d2 where "d2 = ''Drizzle enum definitions''"
  define d3 where "d3 = ''TypeScript enum extension types''"
  show "Inr (generateEnumsValidation enums now') =
     restamp ''Zod enum validation schemas'' now now' (Inr (generateEnumsValidation enums now))"
    unfolding generateEnumsValidation_def d1_def [symmetric] by (simp add: restamp_def)
  show "Inr (generateEnumsFile enums now') =
     restamp ''Drizzle enum definitions'' now now' (Inr (generateEnumsFile enums now))"
    unfolding generateEnumsFile_def d2_def [symmetric] by (simp add: restamp_def)
  show "Inr (generateEnumsTypes enums now') =
     restamp ''TypeScript enum extension types'' now now' (Inr (generateEnumsTypes enums now))"
    unfolding generateEnumsTypes_def d3_def [symmetric] by (simp add: restamp_def)
qed

text \<open>
  C1, as the code has it. Every emitted file starts with the header, and the header holds
  the clock reading of the run on its third line. Two runs on the same input, reading the
  clock as \<open>now\<close> and as \<open>now'\<close>, either fail alike or produce texts that differ in that
  line only: the text of the second run is the text of the first with the header stamped
  anew. This holds for the validation, storage and type file of a table, for the three enum
  files and for the aggregation files; with equal readings the texts are equal.
\<close>

theorem rerun_differs_in_timestamp_only:
  "generateTableValidation t enums now' =
     restamp (''Zod validation schemas for '' @ tableName t @ '' table'') now now'
       (generateTableValidation t enums now)
   \<and> generateTableSchema_drizzle t enums now' =
       restamp (''Drizzle schema for '' @ tableName t @ '' table'') now now'
         (generateTableSchema_drizzle t enums now)
   \<and> generateTableTypes t enums allTables now' =
       restamp (''TypeScript extension types for '' @ tableName t @ '' table'') now now'
         (generateTableTypes t enums allTables now)
   \<and> Inr (generateEnumsValidation enums now') =
       restamp ''Zod enum validation schemas'' now now' (Inr (generateEnumsValidation enums now))
   \<and> Inr (generateEnumsFile enums now') =
       restamp ''Drizzle enum definitions'' now now' (Inr (generateEnumsFile enums now))
   \<and> Inr (generateEnumsTypes enums now') =
       restamp ''TypeScript enum extension types'' now now'
         (Inr (generateEnumsTypes enums now))
   \<and> generateModelAggregation tables kind now' =
       restamp (descriptions kind) now now' (generateModelAggregation tables kind now)
   \<and> generateFileHeader description now =
       ''// '' @ description @ newline
       @ ''// This file is auto-generated. Do not edit manually.'' @ newline
       @ ''// Generated at: '' @ now @ newline @ newline"
  using rerun_validation [of t enums now' now] rerun_storage [of t enums now' now]
        rerun_types [of t enums allTables now' now] rerun_enums [of enums now' now]
        rerun_aggregation [of tables kind now' now]
  by (simp only: generateFileHeader_def simp_thms)

text \<open>
  C1 as stated fails as soon as the clock moves between the two runs: the aggregation file
  for the validation schemas of one table, written one second apart.
\<close>

theorem rerun_counterexample:
  "generateModelAggregation [exGuests] ValidationKind ''2024-01-01T00:00:00.000Z''
     = Inr (''// Validation schemas aggregation\<newline>// This file is auto-generated. Do not edit manually.\<newline>// Generated at: 2024-01-01T00:00:00.000Z\<newline>\<newline>// Export all enum validation\<newline>export * from './enums/validation';\<newline>\<newline>// Export all table validation\<newline>export * from './guest/validation';\<newline>'')
   \<and> generateModelAggregation [exGuests] ValidationKind ''2024-01-01T00:00:01.000Z''
     = Inr (''// Validation schemas aggregation\<newline>// This file is auto-generated. Do not edit manually.\<newline>// Generated at: 2024-01-01T00:00:01.000Z\<newline>\<newline>// Export all enum validation\<newline>export * from './enums/validation';\<newline>\<newline>// Export all table validation\<newline>export * from './guest/validation';\<newline>'')
   \<and> generateModelAggregation [exGuests] ValidationKind ''2024-01-01T00:00:00.000Z''
     \<noteq> generateModelAggregation [exGuests] ValidationKind ''2024-01-01T00:00:01.000Z''"
  by code_simp

end
